theory Spec2Isabelle
  imports Main "HOL-Library.Word"
begin

unbundle bit_operations_syntax

section \<open>Common Vulkan types\<close>

text \<open>
  Handles (\<^verbatim>\<open>VkBuffer\<close>, \<^verbatim>\<open>VkDevice\<close>, \<^verbatim>\<open>VkSurfaceKHR\<close>, ...) are opaque; the code only
  compares them with \<^verbatim>\<open>VK_NULL_HANDLE\<close>. They are natural numbers here, 0 being the null handle.
  \<^verbatim>\<open>VkDeviceSize\<close> is a 64-bit and \<^verbatim>\<open>uint32_t\<close> a 32-bit unsigned integer.
\<close>

type_synonym handle = nat
type_synonym VkDeviceSize = "64 word"
type_synonym uint32_t = "32 word"
type_synonym VkFlags = "32 word"

definition VK_NULL_HANDLE :: handle where
  "VK_NULL_HANDLE = 0"

datatype VkResult =
    VK_SUCCESS
  | VK_NOT_READY
  | VK_TIMEOUT
  | VK_SUBOPTIMAL_KHR
  | VK_ERROR_OUT_OF_DATE_KHR
  | VK_ERROR_OUT_OF_HOST_MEMORY
  | VK_ERROR_OUT_OF_DEVICE_MEMORY
  | VK_ERROR_INITIALIZATION_FAILED
  | VK_ERROR_DEVICE_LOST
  | VK_ERROR_MEMORY_MAP_FAILED
  | VK_ERROR_SURFACE_LOST_KHR

text \<open>
  The exceptions the C++ code throws; \<open>vk_check_failed\<close> is the \<^verbatim>\<open>runtime_error\<close> of \<^verbatim>\<open>VK_CHECK\<close>.
  \<open>undefined_behaviour\<close> is no exception: it marks an \<^verbatim>\<open>operator[]\<close> on a \<^verbatim>\<open>std::vector\<close> outside its
  range, where the C++ standard says nothing about what follows and the model stops.
\<close>

datatype exn =
    runtime_error string
  | invalid_argument string
  | out_of_range string
  | vk_check_failed VkResult
  | bad_optional_access
  | undefined_behaviour string

text \<open>
  Enumerations of the Vulkan header that the code compares against. Only the members the
  code names are listed, the rest of each enumeration is \<open>\<dots>_OTHER\<close> with its number.
\<close>

datatype VkImageLayout =
    VK_IMAGE_LAYOUT_UNDEFINED
  | VK_IMAGE_LAYOUT_GENERAL
  | VK_IMAGE_LAYOUT_COLOR_ATTACHMENT_OPTIMAL
  | VK_IMAGE_LAYOUT_DEPTH_STENCIL_ATTACHMENT_OPTIMAL
  | VK_IMAGE_LAYOUT_DEPTH_STENCIL_READ_ONLY_OPTIMAL
  | VK_IMAGE_LAYOUT_SHADER_READ_ONLY_OPTIMAL
  | VK_IMAGE_LAYOUT_TRANSFER_SRC_OPTIMAL
  | VK_IMAGE_LAYOUT_TRANSFER_DST_OPTIMAL
  | VK_IMAGE_LAYOUT_PREINITIALIZED
  | VK_IMAGE_LAYOUT_PRESENT_SRC_KHR
  | VK_IMAGE_LAYOUT_OTHER nat

datatype VkFormat =
    VK_FORMAT_UNDEFINED
  | VK_FORMAT_R8G8B8A8_UNORM
  | VK_FORMAT_R8G8B8A8_SRGB
  | VK_FORMAT_B8G8R8A8_SRGB
  | VK_FORMAT_D32_SFLOAT
  | VK_FORMAT_D32_SFLOAT_S8_UINT
  | VK_FORMAT_D24_UNORM_S8_UINT
  | VK_FORMAT_OTHER nat

datatype VkColorSpaceKHR =
    VK_COLOR_SPACE_SRGB_NONLINEAR_KHR
  | VK_COLOR_SPACE_OTHER nat

datatype VkPresentModeKHR =
    VK_PRESENT_MODE_IMMEDIATE_KHR
  | VK_PRESENT_MODE_MAILBOX_KHR
  | VK_PRESENT_MODE_FIFO_KHR
  | VK_PRESENT_MODE_FIFO_RELAXED_KHR

datatype VkFilter = VK_FILTER_NEAREST | VK_FILTER_LINEAR

text \<open>Flag bits, with the values of the Vulkan header.\<close>

definition VK_ACCESS_SHADER_READ_BIT :: VkFlags where
  "VK_ACCESS_SHADER_READ_BIT = 0x20"
definition VK_ACCESS_DEPTH_STENCIL_ATTACHMENT_READ_BIT :: VkFlags where
  "VK_ACCESS_DEPTH_STENCIL_ATTACHMENT_READ_BIT = 0x200"
definition VK_ACCESS_DEPTH_STENCIL_ATTACHMENT_WRITE_BIT :: VkFlags where
  "VK_ACCESS_DEPTH_STENCIL_ATTACHMENT_WRITE_BIT = 0x400"
definition VK_ACCESS_TRANSFER_READ_BIT :: VkFlags where
  "VK_ACCESS_TRANSFER_READ_BIT = 0x800"
definition VK_ACCESS_TRANSFER_WRITE_BIT :: VkFlags where
  "VK_ACCESS_TRANSFER_WRITE_BIT = 0x1000"

definition VK_PIPELINE_STAGE_TOP_OF_PIPE_BIT :: VkFlags where
  "VK_PIPELINE_STAGE_TOP_OF_PIPE_BIT = 0x1"
definition VK_PIPELINE_STAGE_FRAGMENT_SHADER_BIT :: VkFlags where
  "VK_PIPELINE_STAGE_FRAGMENT_SHADER_BIT = 0x80"
definition VK_PIPELINE_STAGE_EARLY_FRAGMENT_TESTS_BIT :: VkFlags where
  "VK_PIPELINE_STAGE_EARLY_FRAGMENT_TESTS_BIT = 0x100"
definition VK_PIPELINE_STAGE_TRANSFER_BIT :: VkFlags where
  "VK_PIPELINE_STAGE_TRANSFER_BIT = 0x1000"

definition VK_IMAGE_ASPECT_COLOR_BIT :: VkFlags where
  "VK_IMAGE_ASPECT_COLOR_BIT = 0x1"
definition VK_IMAGE_ASPECT_DEPTH_BIT :: VkFlags where
  "VK_IMAGE_ASPECT_DEPTH_BIT = 0x2"
definition VK_IMAGE_ASPECT_STENCIL_BIT :: VkFlags where
  "VK_IMAGE_ASPECT_STENCIL_BIT = 0x4"


definition VK_MEMORY_PROPERTY_HOST_VISIBLE_BIT :: VkFlags where
  "VK_MEMORY_PROPERTY_HOST_VISIBLE_BIT = 0x2"
definition VK_MEMORY_PROPERTY_HOST_COHERENT_BIT :: VkFlags where
  "VK_MEMORY_PROPERTY_HOST_COHERENT_BIT = 0x4"

record VkImageMemoryBarrier =
  b_oldLayout :: VkImageLayout
  b_newLayout :: VkImageLayout
  b_srcAccessMask :: VkFlags
  b_dstAccessMask :: VkFlags
  b_image :: handle
  b_aspectMask :: VkFlags
  b_baseMipLevel :: uint32_t
  b_levelCount :: uint32_t
  b_baseArrayLayer :: uint32_t
  b_layerCount :: uint32_t

text \<open>
  A blit region; the first offset of source and destination is always \<open>{0,0,0}\<close> in the code, so
  only the second offsets (width and height) are kept. They are \<^verbatim>\<open>int32_t\<close>; the code only halves
  values greater than 1, so they are integers here.
\<close>

record VkImageBlit =
  blit_srcMipLevel :: uint32_t
  blit_srcWidth :: int
  blit_srcHeight :: int
  blit_dstMipLevel :: uint32_t
  blit_dstWidth :: int
  blit_dstHeight :: int

text \<open>
  What a call leaves behind besides its result: log lines, and the Vulkan calls and recorded
  commands it issued. Barriers, blits and draw-time commands carry the arguments that the
  properties below are about. The \<^verbatim>\<open>INFO\<close> lines and the \<^verbatim>\<open>CRITICAL\<close> line of \<^verbatim>\<open>VK_CHECK\<close> are left out,
  but for the line that closes the mipmap generation.
\<close>

datatype log_level = INFO | WARN | ERROR | CRITICAL

datatype event =
    Log log_level string
  | VkCall string
  | CmdPipelineBarrier VkFlags VkFlags VkImageMemoryBarrier
  | CmdBlitImage handle VkImageBlit VkFilter
  | CmdPushConstants nat
  | CmdBindDescriptorSets nat handle
  | CmdBindVertexBuffers handle VkDeviceSize
  | CmdBindIndexBuffer handle VkDeviceSize
  | CmdDrawIndexed uint32_t

definition VK_CHECK :: "VkResult \<Rightarrow> exn option" where
  "VK_CHECK res = (if res \<noteq> VK_SUCCESS then Some (vk_check_failed res) else None)"

section \<open>GPU buffer (graphics/Buffer.cpp)\<close>

record VulkanBuffer =
  m_Buffer :: handle
  m_Memory :: handle
  m_MappedMemory :: bool
  m_BufferSize :: VkDeviceSize
  m_InstanceCount :: uint32_t
  m_InstanceSize :: VkDeviceSize
  m_AlignmentSize :: VkDeviceSize
  m_UsageFlags :: VkFlags
  m_MemoryPropertyFlags :: VkFlags

text \<open>\<^verbatim>\<open>VulkanBuffer::CalculateAlignment\<close>, in 64-bit unsigned arithmetic.\<close>

definition CalculateAlignment :: "VkDeviceSize \<Rightarrow> VkDeviceSize \<Rightarrow> VkDeviceSize" where
  "CalculateAlignment instanceSize minOffsetAlignment =
     (if minOffsetAlignment > 0
      then (instanceSize + minOffsetAlignment - 1) AND NOT (minOffsetAlignment - 1)
      else instanceSize)"

text \<open>
  \<^verbatim>\<open>Utils::findMemoryType\<close>: the first index \<open>i\<close> whose bit is set in the filter and whose
  property flags include all requested ones; throws when the scan ends. The list holds the
  \<^verbatim>\<open>propertyFlags\<close> of the device's memory types, in order.
\<close>

fun findMemoryType_from :: "nat \<Rightarrow> VkFlags list \<Rightarrow> uint32_t \<Rightarrow> VkFlags \<Rightarrow> exn + nat" where
  "findMemoryType_from i [] typeFilter properties =
     Inl (runtime_error ''Failed to find suitable memory type!'')"
| "findMemoryType_from i (flags # rest) typeFilter properties =
     (if typeFilter AND push_bit i 1 \<noteq> 0 \<and> flags AND properties = properties
      then Inr i
      else findMemoryType_from (Suc i) rest typeFilter properties)"

definition findMemoryType :: "VkFlags list \<Rightarrow> uint32_t \<Rightarrow> VkFlags \<Rightarrow> exn + nat" where
  "findMemoryType memoryTypes typeFilter properties =
     findMemoryType_from 0 memoryTypes typeFilter properties"

text \<open>
  What the device answers during buffer construction: the result and handle of
  \<^verbatim>\<open>vkCreateBuffer\<close>, the memory-type bits of \<^verbatim>\<open>vkGetBufferMemoryRequirements\<close>, the memory types of
  the physical device, the result and handle of \<^verbatim>\<open>vkAllocateMemory\<close>, the result of
  \<^verbatim>\<open>vkBindBufferMemory\<close>.
\<close>

record buffer_device =
  bd_device :: handle
  bd_createBuffer :: "VkResult \<times> handle"
  bd_memoryTypeBits :: uint32_t
  bd_memoryTypes :: "VkFlags list"
  bd_allocateMemory :: "VkResult \<times> handle"
  bd_bindBufferMemory :: VkResult

text \<open>
  The constructor \<^verbatim>\<open>VulkanBuffer::VulkanBuffer\<close>. It returns the events it caused and either the
  exception thrown or the constructed object. The member initialisers run first, then the body
  in the order of the source: the zero check, the null-device check, the size computation
  (\<^verbatim>\<open>instanceCount\<close> is widened to 64 bits for the product), then the three Vulkan calls.
\<close>

definition VulkanBuffer_init :: "VkDeviceSize \<Rightarrow> uint32_t \<Rightarrow> VkFlags \<Rightarrow> VkFlags \<Rightarrow> VulkanBuffer" where
  "VulkanBuffer_init instanceSize instanceCount usageFlags memoryPropertyFlags =
     \<lparr> m_Buffer = VK_NULL_HANDLE, m_Memory = VK_NULL_HANDLE, m_MappedMemory = False,
       m_BufferSize = 0, m_InstanceCount = instanceCount, m_InstanceSize = instanceSize,
       m_AlignmentSize = 0, m_UsageFlags = usageFlags,
       m_MemoryPropertyFlags = memoryPropertyFlags \<rparr>"

definition VulkanBuffer_new ::
  "buffer_device \<Rightarrow> VkDeviceSize \<Rightarrow> uint32_t \<Rightarrow> VkFlags \<Rightarrow> VkFlags \<Rightarrow> VkDeviceSize
     \<Rightarrow> event list \<times> (exn + VulkanBuffer)" where
  "VulkanBuffer_new ctx instanceSize instanceCount usageFlags memoryPropertyFlags minOffsetAlignment =
    (let b0 = VulkanBuffer_init instanceSize instanceCount usageFlags memoryPropertyFlags in
     if instanceCount = 0 \<or> instanceSize = 0 then
       ([Log ERROR ''VulkanBuffer: Instance count or size cannot be zero.''],
        Inr (b0\<lparr> m_BufferSize := 0, m_AlignmentSize := 0 \<rparr>))
     else if bd_device ctx = VK_NULL_HANDLE then
       ([Log ERROR ''VulkanBuffer: Cannot create buffer with a null Vulkan device in context!''],
        Inl (runtime_error ''Null device for VulkanBuffer creation.''))
     else
       let alignmentSize = CalculateAlignment instanceSize minOffsetAlignment;
           bufferSize = alignmentSize * ucast instanceCount;
           b1 = b0\<lparr> m_AlignmentSize := alignmentSize, m_BufferSize := bufferSize \<rparr>
       in case VK_CHECK (fst (bd_createBuffer ctx)) of
            Some e \<Rightarrow> ([VkCall ''vkCreateBuffer''], Inl e)
          | None \<Rightarrow>
             let b2 = b1\<lparr> m_Buffer := snd (bd_createBuffer ctx) \<rparr> in
             (case findMemoryType (bd_memoryTypes ctx) (bd_memoryTypeBits ctx) memoryPropertyFlags of
                Inl e \<Rightarrow> ([VkCall ''vkCreateBuffer'', VkCall ''vkGetBufferMemoryRequirements''], Inl e)
              | Inr typeIndex \<Rightarrow>
                 (case VK_CHECK (fst (bd_allocateMemory ctx)) of
                    Some e \<Rightarrow>
                      ([VkCall ''vkCreateBuffer'', VkCall ''vkGetBufferMemoryRequirements'',
                        VkCall ''vkAllocateMemory''], Inl e)
                  | None \<Rightarrow>
                     let b3 = b2\<lparr> m_Memory := snd (bd_allocateMemory ctx) \<rparr> in
                     (case VK_CHECK (bd_bindBufferMemory ctx) of
                        Some e \<Rightarrow>
                          ([VkCall ''vkCreateBuffer'', VkCall ''vkGetBufferMemoryRequirements'',
                            VkCall ''vkAllocateMemory'', VkCall ''vkBindBufferMemory''], Inl e)
                      | None \<Rightarrow>
                          ([VkCall ''vkCreateBuffer'', VkCall ''vkGetBufferMemoryRequirements'',
                            VkCall ''vkAllocateMemory'', VkCall ''vkBindBufferMemory''], Inr b3)))))"

section \<open>Transfer and transition utilities (graphics/VulkanUtils.cpp)\<close>

definition hasStencilComponent :: "VkFormat \<Rightarrow> bool" where
  "hasStencilComponent format \<longleftrightarrow>
     format = VK_FORMAT_D32_SFLOAT_S8_UINT \<or> format = VK_FORMAT_D24_UNORM_S8_UINT"

text \<open>
  The handles the one-shot helpers are given, and what the device answers to each of their
  calls.
\<close>

record single_time_device =
  st_device :: handle
  st_commandPool :: handle
  st_queue :: handle
  st_allocateCommandBuffers :: "VkResult \<times> handle"
  st_beginCommandBuffer :: VkResult
  st_endCommandBuffer :: VkResult
  st_createFence :: VkResult
  st_queueSubmit :: VkResult
  st_waitForFences :: VkResult

text \<open>\<^verbatim>\<open>Utils::BeginSingleTimeCommands\<close>: the events, and the exception or the command buffer.\<close>

definition BeginSingleTimeCommands :: "single_time_device \<Rightarrow> event list \<times> (exn + handle)" where
  "BeginSingleTimeCommands d =
    (if st_device d = VK_NULL_HANDLE \<or> st_commandPool d = VK_NULL_HANDLE then
       ([Log ERROR ''BeginSingleTimeCommands: Invalid device or command pool.''],
        Inl (runtime_error ''Null device or command pool for single time commands.''))
     else case VK_CHECK (fst (st_allocateCommandBuffers d)) of
       Some e \<Rightarrow> ([VkCall ''vkAllocateCommandBuffers''], Inl e)
     | None \<Rightarrow>
        (case VK_CHECK (st_beginCommandBuffer d) of
           Some e \<Rightarrow> ([VkCall ''vkAllocateCommandBuffers'', VkCall ''vkBeginCommandBuffer''], Inl e)
         | None \<Rightarrow> ([VkCall ''vkAllocateCommandBuffers'', VkCall ''vkBeginCommandBuffer''],
                     Inr (snd (st_allocateCommandBuffers d)))))"

text \<open>\<^verbatim>\<open>Utils::EndSingleTimeCommands\<close>: the events and the exception, if one is thrown.\<close>

definition EndSingleTimeCommands :: "single_time_device \<Rightarrow> handle \<Rightarrow> event list \<times> exn option" where
  "EndSingleTimeCommands d commandBuffer =
    (if st_device d = VK_NULL_HANDLE \<or> st_commandPool d = VK_NULL_HANDLE
        \<or> st_queue d = VK_NULL_HANDLE \<or> commandBuffer = VK_NULL_HANDLE then
       ([Log ERROR ''EndSingleTimeCommands: Invalid device, pool, queue, or command buffer.''] @
        (if st_device d \<noteq> VK_NULL_HANDLE \<and> st_commandPool d \<noteq> VK_NULL_HANDLE
            \<and> commandBuffer \<noteq> VK_NULL_HANDLE
         then [VkCall ''vkFreeCommandBuffers''] else []),
        Some (runtime_error ''Null arguments for ending single time commands.''))
     else case VK_CHECK (st_endCommandBuffer d) of
       Some e \<Rightarrow> ([VkCall ''vkEndCommandBuffer''], Some e)
     | None \<Rightarrow>
        (case VK_CHECK (st_createFence d) of
           Some e \<Rightarrow> ([VkCall ''vkEndCommandBuffer'', VkCall ''vkCreateFence''], Some e)
         | None \<Rightarrow>
            (case VK_CHECK (st_queueSubmit d) of
               Some e \<Rightarrow>
                 ([VkCall ''vkEndCommandBuffer'', VkCall ''vkCreateFence'',
                   VkCall ''vkQueueSubmit''], Some e)
             | None \<Rightarrow>
                (case VK_CHECK (st_waitForFences d) of
                   Some e \<Rightarrow>
                     ([VkCall ''vkEndCommandBuffer'', VkCall ''vkCreateFence'',
                       VkCall ''vkQueueSubmit'', VkCall ''vkWaitForFences''], Some e)
                 | None \<Rightarrow>
                     ([VkCall ''vkEndCommandBuffer'', VkCall ''vkCreateFence'',
                       VkCall ''vkQueueSubmit'', VkCall ''vkWaitForFences'',
                       VkCall ''vkDestroyFence'', VkCall ''vkFreeCommandBuffers''], None)))))"

text \<open>
  The cascade of \<^verbatim>\<open>TransitionImageLayout\<close> that picks the access masks and the pipeline stages,
  in the order of the source: (source access, destination access, source stage, destination
  stage), or the exception of the final \<^verbatim>\<open>else\<close>.
\<close>

definition transition_masks ::
  "VkImageLayout \<Rightarrow> VkImageLayout \<Rightarrow> exn + (VkFlags \<times> VkFlags \<times> VkFlags \<times> VkFlags)" where
  "transition_masks oldLayout newLayout =
    (if oldLayout = VK_IMAGE_LAYOUT_UNDEFINED \<and> newLayout = VK_IMAGE_LAYOUT_TRANSFER_DST_OPTIMAL then
       Inr (0, VK_ACCESS_TRANSFER_WRITE_BIT,
            VK_PIPELINE_STAGE_TOP_OF_PIPE_BIT, VK_PIPELINE_STAGE_TRANSFER_BIT)
     else if oldLayout = VK_IMAGE_LAYOUT_TRANSFER_DST_OPTIMAL
             \<and> newLayout = VK_IMAGE_LAYOUT_SHADER_READ_ONLY_OPTIMAL then
       Inr (VK_ACCESS_TRANSFER_WRITE_BIT, VK_ACCESS_SHADER_READ_BIT,
            VK_PIPELINE_STAGE_TRANSFER_BIT, VK_PIPELINE_STAGE_FRAGMENT_SHADER_BIT)
     else if oldLayout = VK_IMAGE_LAYOUT_UNDEFINED
             \<and> newLayout = VK_IMAGE_LAYOUT_DEPTH_STENCIL_ATTACHMENT_OPTIMAL then
       Inr (0, VK_ACCESS_DEPTH_STENCIL_ATTACHMENT_READ_BIT OR VK_ACCESS_DEPTH_STENCIL_ATTACHMENT_WRITE_BIT,
            VK_PIPELINE_STAGE_TOP_OF_PIPE_BIT, VK_PIPELINE_STAGE_EARLY_FRAGMENT_TESTS_BIT)
     else if oldLayout = VK_IMAGE_LAYOUT_TRANSFER_DST_OPTIMAL
             \<and> newLayout = VK_IMAGE_LAYOUT_TRANSFER_SRC_OPTIMAL then
       Inr (VK_ACCESS_TRANSFER_WRITE_BIT, VK_ACCESS_TRANSFER_READ_BIT,
            VK_PIPELINE_STAGE_TRANSFER_BIT, VK_PIPELINE_STAGE_TRANSFER_BIT)
     else if oldLayout = VK_IMAGE_LAYOUT_TRANSFER_SRC_OPTIMAL
             \<and> newLayout = VK_IMAGE_LAYOUT_SHADER_READ_ONLY_OPTIMAL then
       Inr (VK_ACCESS_TRANSFER_READ_BIT, VK_ACCESS_SHADER_READ_BIT,
            VK_PIPELINE_STAGE_TRANSFER_BIT, VK_PIPELINE_STAGE_FRAGMENT_SHADER_BIT)
     else Inl (invalid_argument ''Unsupported layout transition in Utils::TransitionImageLayout!''))"

definition transition_aspect :: "VkFormat \<Rightarrow> VkImageLayout \<Rightarrow> VkImageLayout \<Rightarrow> VkFlags" where
  "transition_aspect format oldLayout newLayout =
    (if newLayout = VK_IMAGE_LAYOUT_DEPTH_STENCIL_ATTACHMENT_OPTIMAL
        \<or> oldLayout = VK_IMAGE_LAYOUT_DEPTH_STENCIL_ATTACHMENT_OPTIMAL
     then (if hasStencilComponent format
           then VK_IMAGE_ASPECT_DEPTH_BIT OR VK_IMAGE_ASPECT_STENCIL_BIT
           else VK_IMAGE_ASPECT_DEPTH_BIT)
     else VK_IMAGE_ASPECT_COLOR_BIT)"

text \<open>
  \<^verbatim>\<open>Utils::TransitionImageLayout\<close>: begins a one-shot command buffer, fills the barrier, picks
  masks and stages (or throws, leaving the command buffer open), records the barrier, and ends
  the one-shot submission.
\<close>

definition TransitionImageLayout ::
  "single_time_device \<Rightarrow> handle \<Rightarrow> VkFormat \<Rightarrow> VkImageLayout \<Rightarrow> VkImageLayout
     \<Rightarrow> uint32_t \<Rightarrow> uint32_t \<Rightarrow> uint32_t \<Rightarrow> uint32_t \<Rightarrow> event list \<times> exn option" where
  "TransitionImageLayout d img format oldLayout newLayout mipLevels baseMipLevel layerCount baseArrayLayer =
    (case BeginSingleTimeCommands d of
       (evs, Inl e) \<Rightarrow> (evs, Some e)
     | (evs, Inr commandBuffer) \<Rightarrow>
        (case transition_masks oldLayout newLayout of
           Inl e \<Rightarrow> (evs, Some e)
         | Inr (srcAccess, dstAccess, sourceStage, destinationStage) \<Rightarrow>
            let barrier = \<lparr> b_oldLayout = oldLayout, b_newLayout = newLayout,
                  b_srcAccessMask = srcAccess, b_dstAccessMask = dstAccess, b_image = img,
                  b_aspectMask = transition_aspect format oldLayout newLayout,
                  b_baseMipLevel = baseMipLevel, b_levelCount = mipLevels,
                  b_baseArrayLayer = baseArrayLayer, b_layerCount = layerCount \<rparr>;
                (evs', r) = EndSingleTimeCommands d commandBuffer
            in (evs @ [CmdPipelineBarrier sourceStage destinationStage barrier] @ evs', r)))"





section \<open>Swapchain manager (graphics/Swapchain.cpp)\<close>

record VkExtent2D =
  ext_width :: uint32_t
  ext_height :: uint32_t

record VkSurfaceCapabilitiesKHR =
  cap_minImageCount :: uint32_t
  cap_maxImageCount :: uint32_t
  cap_currentExtent :: VkExtent2D
  cap_minImageExtent :: VkExtent2D
  cap_maxImageExtent :: VkExtent2D

record VkSurfaceFormatKHR =
  sf_format :: VkFormat
  sf_colorSpace :: VkColorSpaceKHR

record SwapChainSupportDetails =
  capabilities :: VkSurfaceCapabilitiesKHR
  formats :: "VkSurfaceFormatKHR list"
  presentModes :: "VkPresentModeKHR list"

record QueueFamilyIndices =
  graphicsFamily :: "uint32_t option"
  presentFamily :: "uint32_t option"

text \<open>The fields of \<^verbatim>\<open>VulkanContext\<close> that the swapchain and the renderer read or write.\<close>

record VulkanContext =
  device :: handle
  physicalDevice :: handle
  surface :: handle
  imageCount :: uint32_t
  minImageCount :: uint32_t

text \<open>
  What the platform answers while a swapchain is built: the surface support that
  \<^verbatim>\<open>QuerySwapChainSupport\<close> reads from a live surface, the queue families, the result and handle
  of \<^verbatim>\<open>vkCreateSwapchainKHR\<close>, the results of the two \<^verbatim>\<open>vkGetSwapchainImagesKHR\<close> calls with the
  images, and the result and view of \<^verbatim>\<open>vkCreateImageView\<close> for each image.
\<close>

record swapchain_platform =
  sp_support :: SwapChainSupportDetails
  sp_queueFamilies :: QueueFamilyIndices
  sp_createSwapchain :: "VkResult \<times> handle"
  sp_getImagesCount :: VkResult
  sp_getImages :: "VkResult \<times> handle list"
  sp_createImageView :: "handle \<Rightarrow> VkResult \<times> handle"

record Swapchain =
  m_CurrentWindowWidth :: uint32_t
  m_CurrentWindowHeight :: uint32_t
  m_SwapChain :: handle
  m_SwapChainImages :: "handle list"
  m_SwapChainImageViews :: "handle list"
  m_SwapChainImageFormat :: VkFormat
  m_SwapChainExtent :: VkExtent2D

definition zero_extent :: VkExtent2D where
  "zero_extent = \<lparr> ext_width = 0, ext_height = 0 \<rparr>"

text \<open>
  \<^verbatim>\<open>VulkanContext::QuerySwapChainSupport\<close>: empty (value-initialised) details without a surface,
  else what the surface reports.
\<close>

definition QuerySwapChainSupport :: "VulkanContext \<Rightarrow> swapchain_platform \<Rightarrow> SwapChainSupportDetails" where
  "QuerySwapChainSupport ctx p =
    (if surface ctx = VK_NULL_HANDLE then
       \<lparr> capabilities = \<lparr> cap_minImageCount = 0, cap_maxImageCount = 0,
             cap_currentExtent = zero_extent, cap_minImageExtent = zero_extent,
             cap_maxImageExtent = zero_extent \<rparr>,
         formats = [], presentModes = [] \<rparr>
     else sp_support p)"

text \<open>\<^verbatim>\<open>Swapchain::ChooseSwapSurfaceFormat\<close>; its caller has checked that the list is not empty.\<close>

definition ChooseSwapSurfaceFormat :: "VkSurfaceFormatKHR list \<Rightarrow> VkSurfaceFormatKHR" where
  "ChooseSwapSurfaceFormat availableFormats =
    (case find (\<lambda>f. sf_format f = VK_FORMAT_B8G8R8A8_SRGB
                     \<and> sf_colorSpace f = VK_COLOR_SPACE_SRGB_NONLINEAR_KHR) availableFormats of
       Some f \<Rightarrow> f
     | None \<Rightarrow> hd availableFormats)"

definition ChooseSwapPresentMode :: "VkPresentModeKHR list \<Rightarrow> VkPresentModeKHR" where
  "ChooseSwapPresentMode availablePresentModes =
    (if VK_PRESENT_MODE_MAILBOX_KHR \<in> set availablePresentModes
     then VK_PRESENT_MODE_MAILBOX_KHR else VK_PRESENT_MODE_FIFO_KHR)"

text \<open>
  \<^verbatim>\<open>std::clamp(v, lo, hi)\<close> of the C++ standard library: \<open>lo\<close> if \<open>v < lo\<close>, else \<open>hi\<close> if \<open>hi < v\<close>,
  else \<open>v\<close>.
\<close>

definition std_clamp :: "uint32_t \<Rightarrow> uint32_t \<Rightarrow> uint32_t \<Rightarrow> uint32_t" where
  "std_clamp v lo hi = (if v < lo then lo else if hi < v then hi else v)"

text \<open>\<^verbatim>\<open>Swapchain::ChooseSwapExtent\<close>; the sentinel is \<^verbatim>\<open>std::numeric_limits<uint32_t>::max()\<close>.\<close>

definition ChooseSwapExtent :: "VkSurfaceCapabilitiesKHR \<Rightarrow> uint32_t \<Rightarrow> uint32_t \<Rightarrow> VkExtent2D" where
  "ChooseSwapExtent caps windowWidth windowHeight =
    (if ext_width (cap_currentExtent caps) \<noteq> 0xFFFFFFFF then cap_currentExtent caps
     else
       \<lparr> ext_width = std_clamp windowWidth (ext_width (cap_minImageExtent caps))
                        (ext_width (cap_maxImageExtent caps)),
         ext_height = std_clamp windowHeight (ext_height (cap_minImageExtent caps))
                        (ext_height (cap_maxImageExtent caps)) \<rparr>)"

text \<open>The number of images \<^verbatim>\<open>CreateActualSwapchain\<close> requests, in 32-bit unsigned arithmetic.\<close>

definition requested_image_count :: "VkSurfaceCapabilitiesKHR \<Rightarrow> uint32_t" where
  "requested_image_count caps =
    (let c0 = cap_minImageCount caps + 1;
         c1 = (if cap_maxImageCount caps > 0 \<and> c0 > cap_maxImageCount caps
               then cap_maxImageCount caps else c0)
     in if c1 < cap_minImageCount caps then cap_minImageCount caps else c1)"

text \<open>
  \<^verbatim>\<open>Swapchain::CreateActualSwapchain\<close>: the events, and the exception or the updated swapchain and
  context.
\<close>

definition CreateActualSwapchain ::
  "VulkanContext \<Rightarrow> swapchain_platform \<Rightarrow> Swapchain \<Rightarrow> handle
     \<Rightarrow> event list \<times> (exn + Swapchain \<times> VulkanContext)" where
  "CreateActualSwapchain ctx p sw oldSwapchainHandle =
    (let swapChainSupport = QuerySwapChainSupport ctx p in
     if formats swapChainSupport = [] \<or> presentModes swapChainSupport = [] then
       (if surface ctx \<noteq> VK_NULL_HANDLE then
          ([], Inl (runtime_error ''Device does not adequately support swapchains (no formats/present modes).''))
        else
          ([Log WARN ''Swapchain creation skipped due to no surface or inadequate support (likely dummy context).''],
           Inr (sw\<lparr> m_SwapChainImageFormat := VK_FORMAT_UNDEFINED, m_SwapChainExtent := zero_extent \<rparr>,
                ctx)))
     else
       let surfaceFormat = ChooseSwapSurfaceFormat (formats swapChainSupport);
           presentMode = ChooseSwapPresentMode (presentModes swapChainSupport);
           extent = ChooseSwapExtent (capabilities swapChainSupport)
                      (m_CurrentWindowWidth sw) (m_CurrentWindowHeight sw);
           ctx' = ctx\<lparr> minImageCount := requested_image_count (capabilities swapChainSupport) \<rparr>
       in if graphicsFamily (sp_queueFamilies p) = None \<or> presentFamily (sp_queueFamilies p) = None
          then ([], Inl bad_optional_access)
          else if fst (sp_createSwapchain p) \<noteq> VK_SUCCESS then
            ([VkCall ''vkCreateSwapchainKHR''], Inl (runtime_error ''Failed to create swap chain!''))
          else
            ([VkCall ''vkCreateSwapchainKHR''],
             Inr (sw\<lparr> m_SwapChain := snd (sp_createSwapchain p),
                      m_SwapChainImageFormat := sf_format surfaceFormat,
                      m_SwapChainExtent := extent \<rparr>, ctx')))"

definition RetrieveSwapchainImages ::
  "swapchain_platform \<Rightarrow> Swapchain \<Rightarrow> event list \<times> (exn + Swapchain)" where
  "RetrieveSwapchainImages p sw =
    (if m_SwapChain sw = VK_NULL_HANDLE then ([], Inr (sw\<lparr> m_SwapChainImages := [] \<rparr>))
     else case VK_CHECK (sp_getImagesCount p) of
       Some e \<Rightarrow> ([VkCall ''vkGetSwapchainImagesKHR''], Inl e)
     | None \<Rightarrow>
        (case VK_CHECK (fst (sp_getImages p)) of
           Some e \<Rightarrow> ([VkCall ''vkGetSwapchainImagesKHR'', VkCall ''vkGetSwapchainImagesKHR''], Inl e)
         | None \<Rightarrow> ([VkCall ''vkGetSwapchainImagesKHR'', VkCall ''vkGetSwapchainImagesKHR''],
                     Inr (sw\<lparr> m_SwapChainImages := snd (sp_getImages p) \<rparr>))))"

text \<open>
  The loop of \<^verbatim>\<open>CreateSwapchainImageViews\<close>: one view per image through \<^verbatim>\<open>Utils::createImageView\<close>
  (whose \<^verbatim>\<open>VK_CHECK\<close> throws), and the null check on the view.
\<close>

fun create_views :: "swapchain_platform \<Rightarrow> handle list \<Rightarrow> exn + handle list" where
  "create_views p [] = Inr []"
| "create_views p (img # imgs) =
    (case VK_CHECK (fst (sp_createImageView p img)) of
       Some e \<Rightarrow> Inl e
     | None \<Rightarrow>
        if snd (sp_createImageView p img) = VK_NULL_HANDLE
        then Inl (runtime_error ''Failed to create image view for swapchain image'')
        else (case create_views p imgs of
                Inl e \<Rightarrow> Inl e
              | Inr views \<Rightarrow> Inr (snd (sp_createImageView p img) # views)))"

definition CreateSwapchainImageViews ::
  "swapchain_platform \<Rightarrow> Swapchain \<Rightarrow> event list \<times> (exn + Swapchain)" where
  "CreateSwapchainImageViews p sw =
    (if m_SwapChainImages sw = [] then ([], Inr (sw\<lparr> m_SwapChainImageViews := [] \<rparr>))
     else case create_views p (m_SwapChainImages sw) of
       Inl e \<Rightarrow> ([VkCall ''vkCreateImageView''], Inl e)
     | Inr views \<Rightarrow> ([VkCall ''vkCreateImageView''], Inr (sw\<lparr> m_SwapChainImageViews := views \<rparr>)))"

text \<open>\<^verbatim>\<open>Swapchain::Init\<close>.\<close>

definition Swapchain_Init ::
  "VulkanContext \<Rightarrow> swapchain_platform \<Rightarrow> Swapchain \<Rightarrow> handle
     \<Rightarrow> event list \<times> (exn + Swapchain \<times> VulkanContext)" where
  "Swapchain_Init ctx p sw oldSwapchainForRecreation =
    (if device ctx = VK_NULL_HANDLE \<or> surface ctx = VK_NULL_HANDLE then
       (if device ctx \<noteq> VK_NULL_HANDLE then
          ([Log ERROR ''Swapchain::Init: Vulkan device or surface is NULL. Cannot create swapchain.''],
           Inl (runtime_error ''Cannot initialize swapchain with null device or surface.''))
        else
          ([Log ERROR ''Swapchain::Init: Vulkan device or surface is NULL. Cannot create swapchain.''],
           Inr (sw, ctx)))
     else case CreateActualSwapchain ctx p sw oldSwapchainForRecreation of
       (evs1, Inl e) \<Rightarrow> (evs1, Inl e)
     | (evs1, Inr (sw1, ctx1)) \<Rightarrow>
        (case RetrieveSwapchainImages p sw1 of
           (evs2, Inl e) \<Rightarrow> (evs1 @ evs2, Inl e)
         | (evs2, Inr sw2) \<Rightarrow>
            (case CreateSwapchainImageViews p sw2 of
               (evs3, Inl e) \<Rightarrow> (evs1 @ evs2 @ evs3, Inl e)
             | (evs3, Inr sw3) \<Rightarrow>
                 (evs1 @ evs2 @ evs3,
                  Inr (sw3, ctx1\<lparr> imageCount := of_nat (length (m_SwapChainImages sw3)) \<rparr>)))))"

text \<open>The constructor \<^verbatim>\<open>Swapchain::Swapchain\<close>: the member initialisers, then \<^verbatim>\<open>Init\<close>.\<close>

definition Swapchain_new ::
  "VulkanContext \<Rightarrow> swapchain_platform \<Rightarrow> uint32_t \<Rightarrow> uint32_t \<Rightarrow> handle
     \<Rightarrow> event list \<times> (exn + Swapchain \<times> VulkanContext)" where
  "Swapchain_new ctx p windowWidth windowHeight previousSwapchainHandle =
     Swapchain_Init ctx p
       \<lparr> m_CurrentWindowWidth = windowWidth, m_CurrentWindowHeight = windowHeight,
         m_SwapChain = VK_NULL_HANDLE, m_SwapChainImages = [], m_SwapChainImageViews = [],
         m_SwapChainImageFormat = VK_FORMAT_UNDEFINED, m_SwapChainExtent = zero_extent \<rparr>
       previousSwapchainHandle"

definition CleanupCurrentSwapchain :: "Swapchain \<Rightarrow> Swapchain" where
  "CleanupCurrentSwapchain sw =
     sw\<lparr> m_SwapChainImageViews := [], m_SwapChain := VK_NULL_HANDLE, m_SwapChainImages := [] \<rparr>"

definition Swapchain_Recreate ::
  "VulkanContext \<Rightarrow> swapchain_platform \<Rightarrow> Swapchain \<Rightarrow> uint32_t \<Rightarrow> uint32_t \<Rightarrow> handle
     \<Rightarrow> event list \<times> (exn + Swapchain \<times> VulkanContext)" where
  "Swapchain_Recreate ctx p sw newWidth newHeight oldSwapchainHandle =
     Swapchain_Init ctx p
       (CleanupCurrentSwapchain
          (sw\<lparr> m_CurrentWindowWidth := newWidth, m_CurrentWindowHeight := newHeight \<rparr>))
       oldSwapchainHandle"

section \<open>Command buffer manager (graphics/CommandManager.cpp)\<close>

record CommandManager =
  m_CommandPool :: handle
  m_CommandBuffers :: "handle list"
  m_FrameCount :: uint32_t

text \<open>
  What the platform answers while a command manager is built: the queue families that
  \<^verbatim>\<open>FindQueueFamilies\<close> reports, the result and handle of \<^verbatim>\<open>vkCreateCommandPool\<close>, and the result
  of \<^verbatim>\<open>vkAllocateCommandBuffers\<close> with the handle it writes at each position.
\<close>

record command_platform =
  cp_queueFamilies :: QueueFamilyIndices
  cp_createCommandPool :: "VkResult \<times> handle"
  cp_allocateCommandBuffers :: "VkResult \<times> (nat \<Rightarrow> handle)"

text \<open>
  The constructor \<^verbatim>\<open>CommandManager::CommandManager\<close> with \<^verbatim>\<open>CreateCommandPool\<close> and
  \<^verbatim>\<open>CreateCommandBuffers\<close>: a skipped initialisation leaves the pool null and no buffers; else a
  null device or a zero frame count throws before any call.
\<close>

definition CommandManager_new ::
  "VulkanContext \<Rightarrow> command_platform \<Rightarrow> uint32_t \<Rightarrow> bool
     \<Rightarrow> event list \<times> (exn + CommandManager)" where
  "CommandManager_new ctx cp frameCount skipInit =
    (if skipInit then
       ([Log WARN ''CommandManager: Skipping Vulkan Initialization for Dummy/Null instance!''],
        Inr \<lparr> m_CommandPool = VK_NULL_HANDLE, m_CommandBuffers = [], m_FrameCount = frameCount \<rparr>)
     else if device ctx = VK_NULL_HANDLE then
       ([Log ERROR ''CommandManager: Cannot initialize with a null Vulkan device in context!''],
        Inl (runtime_error ''CommandManager requires a valid Vulkan device.''))
     else if frameCount = 0 then
       ([Log ERROR ''CommandManager: Frame count cannot be zero!''],
        Inl (invalid_argument ''CommandManager frame count must be greater than zero.''))
     else if graphicsFamily (cp_queueFamilies cp) = None then
       ([], Inl (runtime_error ''Failed to find graphics queue family for command pool creation.''))
     else case VK_CHECK (fst (cp_createCommandPool cp)) of
       Some e \<Rightarrow> ([VkCall ''vkCreateCommandPool''], Inl e)
     | None \<Rightarrow>
        if snd (cp_createCommandPool cp) = VK_NULL_HANDLE then
          ([VkCall ''vkCreateCommandPool''],
           Inl (runtime_error ''Command pool creation failed in CommandManager constructor.''))
        else
          (case VK_CHECK (fst (cp_allocateCommandBuffers cp)) of
             Some e \<Rightarrow> ([VkCall ''vkCreateCommandPool'', VkCall ''vkAllocateCommandBuffers''], Inl e)
           | None \<Rightarrow>
               ([VkCall ''vkCreateCommandPool'', VkCall ''vkAllocateCommandBuffers''],
                Inr \<lparr> m_CommandPool = snd (cp_createCommandPool cp),
                      m_CommandBuffers =
                        map (snd (cp_allocateCommandBuffers cp)) [0 ..< unat frameCount],
                      m_FrameCount = frameCount \<rparr>)))"

text \<open>
  \<^verbatim>\<open>CommandManager::BeginFrameRecording\<close>, given the results of \<^verbatim>\<open>vkResetCommandBuffer\<close> and
  \<^verbatim>\<open>vkBeginCommandBuffer\<close>.
\<close>

definition BeginFrameRecording ::
  "CommandManager \<Rightarrow> uint32_t \<Rightarrow> VkResult \<Rightarrow> VkResult \<Rightarrow> event list \<times> (exn + handle)" where
  "BeginFrameRecording cm frameIndex resetResult beginResult =
    (if m_CommandPool cm = VK_NULL_HANDLE then
       ([Log ERROR ''CommandManager::BeginFrameRecording: CommandManager not properly initialized (null pool).''],
        Inr VK_NULL_HANDLE)
     else if unat frameIndex \<ge> length (m_CommandBuffers cm) then
       ([Log ERROR ''CommandManager::BeginFrameRecording: Invalid frame index requested.''],
        Inl (out_of_range ''Invalid frame index for command buffer begin.''))
     else case VK_CHECK resetResult of
       Some e \<Rightarrow> ([VkCall ''vkResetCommandBuffer''], Inl e)
     | None \<Rightarrow>
        (case VK_CHECK beginResult of
           Some e \<Rightarrow> ([VkCall ''vkResetCommandBuffer'', VkCall ''vkBeginCommandBuffer''], Inl e)
         | None \<Rightarrow> ([VkCall ''vkResetCommandBuffer'', VkCall ''vkBeginCommandBuffer''],
                     Inr (m_CommandBuffers cm ! unat frameIndex))))"

definition EndFrameRecording ::
  "CommandManager \<Rightarrow> uint32_t \<Rightarrow> VkResult \<Rightarrow> event list \<times> (exn + unit)" where
  "EndFrameRecording cm frameIndex endResult =
    (if m_CommandPool cm = VK_NULL_HANDLE then
       ([Log ERROR ''CommandManager::EndFrameRecording: CommandManager not properly initialized (null pool).''],
        Inr ())
     else if unat frameIndex \<ge> length (m_CommandBuffers cm) then
       ([Log ERROR ''CommandManager::EndFrameRecording: Invalid frame index requested.''],
        Inl (out_of_range ''Invalid frame index for command buffer end.''))
     else case VK_CHECK endResult of
       Some e \<Rightarrow> ([VkCall ''vkEndCommandBuffer''], Inl e)
     | None \<Rightarrow> ([VkCall ''vkEndCommandBuffer''], Inr ()))"

section \<open>Frame renderer (graphics/Renderer.cpp)\<close>

text \<open>
  A call of the renderer leaves events and then returns a value, throws, or (the size-polling
  loop of \<^verbatim>\<open>RecreateSwapchain\<close>) never returns: \<open>None\<close>.
\<close>

type_synonym 'a comp = "event list \<times> (exn + 'a) option"

definition returns :: "'a \<Rightarrow> 'a comp" where
  "returns x = ([], Some (Inr x))"

definition throws :: "exn \<Rightarrow> 'a comp" where
  "throws e = ([], Some (Inl e))"

definition emits :: "event list \<Rightarrow> unit comp" where
  "emits evs = (evs, Some (Inr ()))"

definition terminating :: "event list \<times> (exn + 'a) \<Rightarrow> 'a comp" where
  "terminating m = (fst m, Some (snd m))"

definition vk_checked :: "string \<Rightarrow> VkResult \<Rightarrow> unit comp" where
  "vk_checked name res =
    (case VK_CHECK res of
       Some e \<Rightarrow> ([VkCall name], Some (Inl e))
     | None \<Rightarrow> ([VkCall name], Some (Inr ())))"

definition then_do :: "'a comp \<Rightarrow> ('a \<Rightarrow> 'b comp) \<Rightarrow> 'b comp" where
  "then_do m f =
    (case m of
       (evs, None) \<Rightarrow> (evs, None)
     | (evs, Some (Inl e)) \<Rightarrow> (evs, Some (Inl e))
     | (evs, Some (Inr x)) \<Rightarrow> (case f x of (evs', r) \<Rightarrow> (evs @ evs', r)))"

definition MAX_FRAMES_IN_FLIGHT :: uint32_t where
  "MAX_FRAMES_IN_FLIGHT = 2"

record Renderer =
  m_VulkanContext :: VulkanContext
  m_Swapchain :: Swapchain
  m_CommandManager :: CommandManager
  m_RenderPass :: handle
  m_PipelineLayout :: handle
  m_GraphicsPipeline :: handle
  m_DepthImage :: handle
  m_DepthImageMemory :: handle
  m_DepthImageView :: handle
  m_SwapChainFramebuffers :: "handle list"
  m_UniformBuffers :: "VulkanBuffer list"
  m_LightUniformBuffers :: "VulkanBuffer list"
  m_FrameDescriptorSets :: "handle list"
  m_ImageAvailableSemaphores :: "handle list"
  m_RenderFinishedSemaphores :: "handle list"
  m_InFlightFences :: "handle list"
  m_CurrentFrameIndex :: uint32_t
  m_CurrentImageIndex :: uint32_t
  m_FramebufferResized :: bool

text \<open>
  What the platform answers during one frame. \<open>fp_acquireNextImage\<close> is the result of
  \<^verbatim>\<open>vkAcquireNextImageKHR\<close> with the index it writes (on success or suboptimal);
  \<open>fp_framebufferSizes\<close> are the successive answers of \<^verbatim>\<open>Window::GetFramebufferSize\<close>. The many
  creation calls of \<^verbatim>\<open>CreateSwapchainDependents\<close> are summed up: \<open>fp_dependentsFailure\<close> is the
  exception one of them throws, if any, and the other \<open>fp_new\<dots>\<close> fields are the handles they
  return.
\<close>

record frame_platform =
  fp_waitForFences :: VkResult
  fp_acquireNextImage :: "VkResult \<times> uint32_t"
  fp_resetFences :: VkResult
  fp_resetCommandBuffer :: VkResult
  fp_beginCommandBuffer :: VkResult
  fp_endCommandBuffer :: VkResult
  fp_queueSubmit :: VkResult
  fp_queuePresent :: VkResult
  fp_mapMemory :: VkResult
  fp_framebufferSizes :: "(int \<times> int) list"
  fp_swapchain :: swapchain_platform
  fp_dependentsFailure :: "exn option"
  fp_newDepthImage :: handle
  fp_newDepthImageMemory :: handle
  fp_newDepthImageView :: handle
  fp_newRenderPass :: handle
  fp_newPipelineLayout :: handle
  fp_newGraphicsPipeline :: handle
  fp_newFramebuffer :: "handle \<Rightarrow> handle"

definition WaitForDeviceIdle :: "Renderer \<Rightarrow> event list" where
  "WaitForDeviceIdle r =
    (if device (m_VulkanContext r) \<noteq> VK_NULL_HANDLE then [VkCall ''vkDeviceWaitIdle''] else [])"

definition CleanupSwapchainDependents :: "Renderer \<Rightarrow> event list \<times> Renderer" where
  "CleanupSwapchainDependents r =
    (if device (m_VulkanContext r) \<noteq> VK_NULL_HANDLE then
       ((if m_DepthImageView r \<noteq> VK_NULL_HANDLE then [VkCall ''vkDestroyImageView''] else []) @
        (if m_DepthImage r \<noteq> VK_NULL_HANDLE then [VkCall ''vkDestroyImage''] else []) @
        (if m_DepthImageMemory r \<noteq> VK_NULL_HANDLE then [VkCall ''vkFreeMemory''] else []) @
        map (\<lambda>fb. VkCall ''vkDestroyFramebuffer'')
          (filter (\<lambda>fb. fb \<noteq> VK_NULL_HANDLE) (m_SwapChainFramebuffers r)) @
        (if m_GraphicsPipeline r \<noteq> VK_NULL_HANDLE then [VkCall ''vkDestroyPipeline''] else []) @
        (if m_PipelineLayout r \<noteq> VK_NULL_HANDLE then [VkCall ''vkDestroyPipelineLayout''] else []) @
        (if m_RenderPass r \<noteq> VK_NULL_HANDLE then [VkCall ''vkDestroyRenderPass''] else []),
        r\<lparr> m_DepthImageView := VK_NULL_HANDLE, m_DepthImage := VK_NULL_HANDLE,
           m_DepthImageMemory := VK_NULL_HANDLE, m_SwapChainFramebuffers := [],
           m_GraphicsPipeline := VK_NULL_HANDLE, m_PipelineLayout := VK_NULL_HANDLE,
           m_RenderPass := VK_NULL_HANDLE \<rparr>)
     else ([], r))"

definition CreateSwapchainDependents :: "Renderer \<Rightarrow> frame_platform \<Rightarrow> Renderer comp" where
  "CreateSwapchainDependents r p =
    (case fp_dependentsFailure p of
       Some e \<Rightarrow> ([VkCall ''CreateSwapchainDependents''], Some (Inl e))
     | None \<Rightarrow>
        ([VkCall ''CreateSwapchainDependents''],
         Some (Inr (r\<lparr> m_DepthImage := fp_newDepthImage p,
                        m_DepthImageMemory := fp_newDepthImageMemory p,
                        m_DepthImageView := fp_newDepthImageView p,
                        m_RenderPass := fp_newRenderPass p,
                        m_PipelineLayout := fp_newPipelineLayout p,
                        m_GraphicsPipeline := fp_newGraphicsPipeline p,
                        m_SwapChainFramebuffers :=
                          map (fp_newFramebuffer p) (m_SwapChainImageViews (m_Swapchain r)) \<rparr>))))"

text \<open>
  What the platform answers while a renderer is built: the answers for the command manager, the
  size of the window, and the answers for the swapchain and its dependents (those of a frame).
  The creation of the descriptor set layouts, uniform buffers, descriptor pool, frame
  descriptor sets and synchronisation objects is summed up: \<open>ip_resourcesFailure\<close> is the
  exception one of them throws, if any, and the other fields are what they create.
\<close>

record init_platform =
  ip_commands :: command_platform
  ip_windowWidth :: int
  ip_windowHeight :: int
  ip_frame :: frame_platform
  ip_resourcesFailure :: "exn option"
  ip_uniformBuffers :: "VulkanBuffer list"
  ip_lightUniformBuffers :: "VulkanBuffer list"
  ip_frameDescriptorSets :: "handle list"
  ip_imageAvailableSemaphores :: "handle list"
  ip_renderFinishedSemaphores :: "handle list"
  ip_inFlightFences :: "handle list"

text \<open>The member initialisers of \<^verbatim>\<open>Renderer::Renderer\<close>, around the three owned objects.\<close>

definition Renderer_members :: "VulkanContext \<Rightarrow> Swapchain \<Rightarrow> CommandManager \<Rightarrow> Renderer" where
  "Renderer_members ctx sw cm =
     \<lparr> m_VulkanContext = ctx, m_Swapchain = sw, m_CommandManager = cm,
       m_RenderPass = VK_NULL_HANDLE, m_PipelineLayout = VK_NULL_HANDLE,
       m_GraphicsPipeline = VK_NULL_HANDLE, m_DepthImage = VK_NULL_HANDLE,
       m_DepthImageMemory = VK_NULL_HANDLE, m_DepthImageView = VK_NULL_HANDLE,
       m_SwapChainFramebuffers = [], m_UniformBuffers = [], m_LightUniformBuffers = [],
       m_FrameDescriptorSets = [], m_ImageAvailableSemaphores = [],
       m_RenderFinishedSemaphores = [], m_InFlightFences = [],
       m_CurrentFrameIndex = 0, m_CurrentImageIndex = 0, m_FramebufferResized = False \<rparr>"

text \<open>
  The calls of \<^verbatim>\<open>InitVulkan\<close> between the swapchain and its dependents
  (\<^verbatim>\<open>CreateDescriptorSetLayouts\<close> to \<^verbatim>\<open>CreateSyncObjects\<close>), summed up.
\<close>

definition CreateFrameResources :: "Renderer \<Rightarrow> init_platform \<Rightarrow> Renderer comp" where
  "CreateFrameResources r ip =
    (case ip_resourcesFailure ip of
       Some e \<Rightarrow> ([VkCall ''CreateFrameResources''], Some (Inl e))
     | None \<Rightarrow>
        ([VkCall ''CreateFrameResources''],
         Some (Inr (r\<lparr> m_UniformBuffers := ip_uniformBuffers ip,
                        m_LightUniformBuffers := ip_lightUniformBuffers ip,
                        m_FrameDescriptorSets := ip_frameDescriptorSets ip,
                        m_ImageAvailableSemaphores := ip_imageAvailableSemaphores ip,
                        m_RenderFinishedSemaphores := ip_renderFinishedSemaphores ip,
                        m_InFlightFences := ip_inFlightFences ip \<rparr>))))"

text \<open>
  \<^verbatim>\<open>Renderer::InitVulkan\<close>, the body of the constructor \<^verbatim>\<open>Renderer::Renderer(Window&)\<close>. \<open>ctx\<close> is the
  context that its first statement, the constructor of \<^verbatim>\<open>VulkanContext\<close>, has built. The command
  manager and the swapchain are constructed on that context, in this order, and an exception of
  either ends the construction. The last assignment of the source reads the minimum image count
  from a member the renderer does not have; the count is left as the swapchain creation set it.
\<close>

definition InitVulkan :: "VulkanContext \<Rightarrow> init_platform \<Rightarrow> Renderer comp" where
  "InitVulkan ctx ip =
    then_do (terminating (CommandManager_new ctx (ip_commands ip) MAX_FRAMES_IN_FLIGHT False)) (\<lambda>cm.
    then_do (terminating (Swapchain_new ctx (fp_swapchain (ip_frame ip))
               (word_of_int (ip_windowWidth ip)) (word_of_int (ip_windowHeight ip))
               VK_NULL_HANDLE)) (\<lambda>(sw, ctx1).
    then_do (CreateFrameResources (Renderer_members ctx1 sw cm) ip) (\<lambda>r1.
    then_do (CreateSwapchainDependents r1 (ip_frame ip)) (\<lambda>r2.
    returns (r2\<lparr> m_VulkanContext :=
                   (m_VulkanContext r2)\<lparr> imageCount :=
                      of_nat (length (m_SwapChainImages (m_Swapchain r2))) \<rparr> \<rparr>)))))"

text \<open>
  The size-polling loop of \<^verbatim>\<open>RecreateSwapchain\<close>: one query, then a query per round while a
  side is zero. It reads the window's successive answers and never returns (\<open>None\<close>) when no
  answer has both sides non-zero.
\<close>

fun wait_for_size :: "(int \<times> int) list \<Rightarrow> (int \<times> int) option" where
  "wait_for_size [] = None"
| "wait_for_size ((width, height) # later) =
    (if width = 0 \<or> height = 0 then wait_for_size later else Some (width, height))"

text \<open>
  \<^verbatim>\<open>Renderer::RecreateSwapchain\<close>. The source calls \<^verbatim>\<open>Recreate\<close> without its third argument; the
  null handle stands for it.
\<close>

definition RecreateSwapchain :: "Renderer \<Rightarrow> frame_platform \<Rightarrow> Renderer comp" where
  "RecreateSwapchain r p =
    then_do (emits [Log WARN ''Recreating Swapchain...'']) (\<lambda>_.
    case wait_for_size (fp_framebufferSizes p) of
      None \<Rightarrow> ([], None)
    | Some (width, height) \<Rightarrow>
       then_do (emits (WaitForDeviceIdle r)) (\<lambda>_.
       then_do (terminating (map_prod id Inr (CleanupSwapchainDependents r))) (\<lambda>r1.
       then_do (terminating (Swapchain_Recreate (m_VulkanContext r1) (fp_swapchain p) (m_Swapchain r1)
                  (word_of_int width) (word_of_int height) VK_NULL_HANDLE)) (\<lambda>(sw, ctx).
       then_do (CreateSwapchainDependents (r1\<lparr> m_Swapchain := sw, m_VulkanContext := ctx \<rparr>) p) (\<lambda>r2.
       returns (r2\<lparr> m_VulkanContext :=
                       (m_VulkanContext r2)\<lparr> imageCount := of_nat (length (m_SwapChainImages sw)) \<rparr>,
                    m_FramebufferResized := False \<rparr>))))))"

definition HandleResize :: "Renderer \<Rightarrow> int \<Rightarrow> int \<Rightarrow> Renderer" where
  "HandleResize r width height = r\<lparr> m_FramebufferResized := True \<rparr>"

text \<open>
  \<^verbatim>\<open>Renderer::BeginFrame\<close>. The source names the command manager's method \<^verbatim>\<open>BeginFrame\<close> and tests
  its result with \<^verbatim>\<open>!\<close>; the method the manager declares is \<^verbatim>\<open>BeginFrameRecording\<close>, which returns
  the command buffer, null on failure.
\<close>

definition BeginFrame :: "Renderer \<Rightarrow> frame_platform \<Rightarrow> (bool \<times> Renderer) comp" where
  "BeginFrame r p =
    (if unat (m_CurrentFrameIndex r) \<ge> length (m_InFlightFences r) then
       throws (undefined_behaviour ''m_InFlightFences[m_CurrentFrameIndex]'')
     else
      then_do (vk_checked ''vkWaitForFences'' (fp_waitForFences p)) (\<lambda>_.
      if unat (m_CurrentFrameIndex r) \<ge> length (m_ImageAvailableSemaphores r) then
        throws (undefined_behaviour ''m_ImageAvailableSemaphores[m_CurrentFrameIndex]'')
      else
       then_do (emits [VkCall ''vkAcquireNextImageKHR'']) (\<lambda>_.
       let result = fst (fp_acquireNextImage p);
           r1 = (if result = VK_SUCCESS \<or> result = VK_SUBOPTIMAL_KHR
                 then r\<lparr> m_CurrentImageIndex := snd (fp_acquireNextImage p) \<rparr> else r)
       in if result = VK_ERROR_OUT_OF_DATE_KHR then
            then_do (RecreateSwapchain r1 p) (\<lambda>r2. returns (False, r2))
          else if result \<noteq> VK_SUCCESS \<and> result \<noteq> VK_SUBOPTIMAL_KHR then
            then_do (emits [Log ERROR ''Failed to acquire swap chain image!'']) (\<lambda>_.
            throws (runtime_error ''Failed to acquire swap chain image!''))
          else
            let r2 = (if result = VK_SUBOPTIMAL_KHR then r1\<lparr> m_FramebufferResized := True \<rparr> else r1)
            in then_do (emits (if result = VK_SUBOPTIMAL_KHR
                               then [Log WARN ''Swapchain suboptimal. Flagging for recreation.'']
                               else [])) (\<lambda>_.
               then_do (vk_checked ''vkResetFences'' (fp_resetFences p)) (\<lambda>_.
               then_do (terminating (BeginFrameRecording (m_CommandManager r2) (m_CurrentFrameIndex r2)
                          (fp_resetCommandBuffer p) (fp_beginCommandBuffer p))) (\<lambda>commandBuffer.
               if commandBuffer = VK_NULL_HANDLE then
                 then_do (emits [Log ERROR ''Failed to begin command buffer for frame!'']) (\<lambda>_.
                 returns (False, r2))
               else returns (True, r2)))))))"

text \<open>
  \<^verbatim>\<open>Renderer::EndFrameAndPresent\<close>. The last line is
  \<^verbatim>\<open>m_CurrentFrameIndex = (m_CurrentFrameIndex + 1) % MAX_FRAMES_IN_FLIGHT\<close> in 32-bit unsigned
  arithmetic.
\<close>

definition EndFrameAndPresent :: "Renderer \<Rightarrow> frame_platform \<Rightarrow> Renderer comp" where
  "EndFrameAndPresent r p =
    then_do (terminating (EndFrameRecording (m_CommandManager r) (m_CurrentFrameIndex r)
               (fp_endCommandBuffer p))) (\<lambda>_.
    if unat (m_CurrentFrameIndex r) \<ge> length (m_CommandBuffers (m_CommandManager r)) then
      throws (undefined_behaviour ''GetCommandBuffers()[m_CurrentFrameIndex]'')
    else if unat (m_CurrentFrameIndex r) \<ge> length (m_ImageAvailableSemaphores r) then
      throws (undefined_behaviour ''m_ImageAvailableSemaphores[m_CurrentFrameIndex]'')
    else if unat (m_CurrentFrameIndex r) \<ge> length (m_RenderFinishedSemaphores r) then
      throws (undefined_behaviour ''m_RenderFinishedSemaphores[m_CurrentFrameIndex]'')
    else if unat (m_CurrentFrameIndex r) \<ge> length (m_InFlightFences r) then
      throws (undefined_behaviour ''m_InFlightFences[m_CurrentFrameIndex]'')
    else
     then_do (vk_checked ''vkQueueSubmit'' (fp_queueSubmit p)) (\<lambda>_.
     then_do (emits [VkCall ''vkQueuePresentKHR'']) (\<lambda>_.
     let result = fp_queuePresent p in
     if result = VK_ERROR_OUT_OF_DATE_KHR \<or> result = VK_SUBOPTIMAL_KHR \<or> m_FramebufferResized r then
       returns (r\<lparr> m_FramebufferResized := True,
                   m_CurrentFrameIndex := (m_CurrentFrameIndex r + 1) mod MAX_FRAMES_IN_FLIGHT \<rparr>)
     else if result \<noteq> VK_SUCCESS then
       then_do (emits [Log ERROR ''Failed to present swap chain image!'']) (\<lambda>_.
       throws (runtime_error ''Failed to present swap chain image!''))
     else
       returns (r\<lparr> m_CurrentFrameIndex := (m_CurrentFrameIndex r + 1) mod MAX_FRAMES_IN_FLIGHT \<rparr>))))"




subsection \<open>Recording the draw commands\<close>

text \<open>
  What \<^verbatim>\<open>RecordCommands\<close> reads of a mesh (assets/Mesh.h), of a material (assets/Material.h) and
  of a renderable (graphics/Renderer.h). A null pointer is \<open>None\<close>. The transform only yields the
  model matrix that is pushed as a constant; it is an opaque number here.
\<close>

record Mesh =
  vertexBuffer :: "VulkanBuffer option"
  vertexBufferOffset :: VkDeviceSize
  indexBuffer :: "VulkanBuffer option"
  indexBufferOffset :: VkDeviceSize
  indexCount :: uint32_t
  material :: nat

record Material =
  mat_name :: string
  descriptorSet :: handle

record RenderObjectInfo =
  mesh :: "Mesh option"
  transform :: "nat option"

text \<open>
  \<^verbatim>\<open>VulkanBuffer::WriteToBuffer\<close> as the uniform-buffer updates call it (non-null data, an explicit
  size, offset 0), given the result of \<^verbatim>\<open>vkMapMemory\<close>. The bytes written are not modelled and the
  object is as before when the call returns.
\<close>

definition WriteToBuffer :: "VulkanBuffer \<Rightarrow> VkResult \<Rightarrow> event list \<times> (exn + unit)" where
  "WriteToBuffer b mapResult =
    (if m_Buffer b = VK_NULL_HANDLE then
       ([Log ERROR ''VulkanBuffer::WriteToBuffer: Buffer is null.''], Inr ())
     else if m_MemoryPropertyFlags b AND VK_MEMORY_PROPERTY_HOST_VISIBLE_BIT = 0 then
       ([Log ERROR ''VulkanBuffer::WriteToBuffer: Cannot write directly to non-host-visible buffer. Use staging.''],
        Inl (runtime_error ''Writing to non-host-visible buffer without staging.''))
     else if \<not> m_MappedMemory b \<and> m_Memory b = VK_NULL_HANDLE then
       ([Log ERROR ''VulkanBuffer::Map: Buffer or memory is null. Cannot map.'',
         Log ERROR ''VulkanBuffer::WriteToBuffer: Failed to map memory for writing.''], Inr ())
     else if \<not> m_MappedMemory b \<and> mapResult \<noteq> VK_SUCCESS then
       ([VkCall ''vkMapMemory'',
         Log ERROR ''VulkanBuffer::WriteToBuffer: Failed to map memory for writing.''], Inr ())
     else
       ((if \<not> m_MappedMemory b then [VkCall ''vkMapMemory''] else []) @
        [VkCall ''memcpy''] @
        (if m_MemoryPropertyFlags b AND VK_MEMORY_PROPERTY_HOST_COHERENT_BIT = 0 \<and> m_Memory b \<noteq> VK_NULL_HANDLE
         then [VkCall ''vkFlushMappedMemoryRanges''] else []) @
        (if \<not> m_MappedMemory b then [VkCall ''vkUnmapMemory''] else []),
        Inr ()))"

definition GetCurrentCommandBuffer :: "Renderer \<Rightarrow> exn + handle" where
  "GetCurrentCommandBuffer r =
    (if unat (m_CurrentFrameIndex r) \<ge> length (m_CommandBuffers (m_CommandManager r)) then
       Inl (runtime_error ''Attempted to get command buffer with invalid frame index!'')
     else Inr (m_CommandBuffers (m_CommandManager r) ! unat (m_CurrentFrameIndex r)))"

text \<open>
  The test at the head of the loop body of \<^verbatim>\<open>RecordCommands\<close>: a renderable is skipped when its
  mesh, its transform, or the vertex or index buffer of its mesh is null.
\<close>

definition skipped :: "RenderObjectInfo \<Rightarrow> bool" where
  "skipped renderInfo \<longleftrightarrow>
    (case mesh renderInfo of
       None \<Rightarrow> True
     | Some m \<Rightarrow> transform renderInfo = None \<or> vertexBuffer m = None \<or> indexBuffer m = None)"

definition soft_binding_warning :: event where
  "soft_binding_warning =
     Log WARN ''Material has NULL descriptor set. Object might render incorrectly.''"

text \<open>
  The loop over the renderables. \<open>GetMaterial\<close> is the (virtual) lookup of the asset manager that
  the service locator hands out. \<open>logged_once\<close> is the static flag of the \<^verbatim>\<open>VKENG_WARN_ONCE\<close> at this
  call site (core/Log.h): the warning is logged only while the flag is unset, and sets it. The
  result is the commands and log lines, and the flag afterwards.
\<close>

fun draw_renderables ::
  "(nat \<Rightarrow> Material) \<Rightarrow> bool \<Rightarrow> RenderObjectInfo list \<Rightarrow> event list \<times> bool" where
  "draw_renderables GetMaterial logged_once [] = ([], logged_once)"
| "draw_renderables GetMaterial logged_once (renderInfo # rest) =
    (case (mesh renderInfo, transform renderInfo) of
       (Some m, Some t) \<Rightarrow>
        (case (vertexBuffer m, indexBuffer m) of
           (Some vb, Some ib) \<Rightarrow>
             let mat = GetMaterial (material m);
                 bind_evs = (if descriptorSet mat \<noteq> VK_NULL_HANDLE
                             then [CmdBindDescriptorSets 1 (descriptorSet mat)]
                             else if \<not> logged_once then [soft_binding_warning] else []);
                 logged_once' = (logged_once \<or> descriptorSet mat = VK_NULL_HANDLE);
                 (evs, final) = draw_renderables GetMaterial logged_once' rest
             in ([CmdPushConstants t] @ bind_evs @
                 [CmdBindVertexBuffers (m_Buffer vb) (vertexBufferOffset m),
                  CmdBindIndexBuffer (m_Buffer ib) (indexBufferOffset m),
                  CmdDrawIndexed (indexCount m)] @ evs, final)
         | _ \<Rightarrow> draw_renderables GetMaterial logged_once rest)
     | _ \<Rightarrow> draw_renderables GetMaterial logged_once rest)"

text \<open>
  \<^verbatim>\<open>Renderer::RecordCommands\<close>. \<open>uiDrawData\<close> is what the UI collaborator appends to the open
  pass. The camera only changes the bytes written to the uniform buffer. The result is the static
  warn-once flag afterwards.
\<close>

definition RecordCommands ::
  "Renderer \<Rightarrow> frame_platform \<Rightarrow> (nat \<Rightarrow> Material) \<Rightarrow> event list \<Rightarrow> bool
     \<Rightarrow> RenderObjectInfo list \<Rightarrow> nat option \<Rightarrow> bool comp" where
  "RecordCommands r p GetMaterial uiDrawData logged_once renderables camera =
    then_do (terminating ([], GetCurrentCommandBuffer r)) (\<lambda>commandBuffer.
    if unat (m_CurrentImageIndex r) \<ge> length (m_SwapChainFramebuffers r) then
      throws (undefined_behaviour ''m_SwapChainFramebuffers[m_CurrentImageIndex]'')
    else
     then_do (emits [VkCall ''vkCmdBeginRenderPass'', VkCall ''vkCmdBindPipeline'',
                     VkCall ''vkCmdSetViewport'', VkCall ''vkCmdSetScissor'']) (\<lambda>_.
     if unat (m_CurrentFrameIndex r) \<ge> length (m_UniformBuffers r) then
       throws (undefined_behaviour ''m_UniformBuffers[currentFrameIndex]'')
     else
      then_do (terminating (WriteToBuffer (m_UniformBuffers r ! unat (m_CurrentFrameIndex r))
                 (fp_mapMemory p))) (\<lambda>_.
      if unat (m_CurrentFrameIndex r) \<ge> length (m_LightUniformBuffers r) then
        throws (undefined_behaviour ''m_LightUniformBuffers[currentFrameIndex]'')
      else
       then_do (terminating (WriteToBuffer (m_LightUniformBuffers r ! unat (m_CurrentFrameIndex r))
                  (fp_mapMemory p))) (\<lambda>_.
       if unat (m_CurrentFrameIndex r) \<ge> length (m_FrameDescriptorSets r) then
         throws (undefined_behaviour ''m_FrameDescriptorSets[m_CurrentFrameIndex]'')
       else
        then_do (emits [CmdBindDescriptorSets 0
                          (m_FrameDescriptorSets r ! unat (m_CurrentFrameIndex r))]) (\<lambda>_.
        then_do (emits (fst (draw_renderables GetMaterial logged_once renderables))) (\<lambda>_.
        then_do (emits uiDrawData) (\<lambda>_.
        then_do (emits [VkCall ''vkCmdEndRenderPass'']) (\<lambda>_.
        returns (snd (draw_renderables GetMaterial logged_once renderables))))))))))"

subsection \<open>The frame loop (core/Application.cpp)\<close>

text \<open>
  One pass of the driver's loop body: \<^verbatim>\<open>BeginFrame\<close>, and only if it returns true
  \<^verbatim>\<open>RecordCommands\<close> and \<^verbatim>\<open>EndFrameAndPresent\<close>. The result says whether the cycle was completed.
\<close>

record frame_input =
  fi_platform :: frame_platform
  fi_GetMaterial :: "nat \<Rightarrow> Material"
  fi_uiDrawData :: "event list"
  fi_renderables :: "RenderObjectInfo list"
  fi_camera :: "nat option"

definition render_frame :: "Renderer \<times> bool \<Rightarrow> frame_input \<Rightarrow> (bool \<times> Renderer \<times> bool) comp" where
  "render_frame st inp =
    then_do (BeginFrame (fst st) (fi_platform inp)) (\<lambda>(ok, r1).
    if ok then
      then_do (RecordCommands r1 (fi_platform inp) (fi_GetMaterial inp) (fi_uiDrawData inp) (snd st)
                 (fi_renderables inp) (fi_camera inp)) (\<lambda>logged_once.
      then_do (EndFrameAndPresent r1 (fi_platform inp)) (\<lambda>r2.
      returns (True, r2, logged_once)))
    else returns (False, r1, snd st))"

text \<open>A run of the loop: the number of completed cycles and the state afterwards.\<close>

fun render_frames :: "Renderer \<times> bool \<Rightarrow> frame_input list \<Rightarrow> (nat \<times> Renderer \<times> bool) comp" where
  "render_frames st [] = returns (0, st)"
| "render_frames st (inp # inps) =
    then_do (render_frame st inp) (\<lambda>(completed, st1).
    then_do (render_frames st1 inps) (\<lambda>(n, st2).
    returns ((if completed then Suc n else n), st2)))"

text \<open>
  The driver between frames: a frame of the loop, or a resize notification, which the
  application's callback drops when a side is zero and else hands to \<^verbatim>\<open>HandleResize\<close>.
\<close>

datatype driver_event = Frame frame_input | Resize int int


section \<open>The specification's formulas\<close>

text \<open>The total size the specification gives for a buffer: \<open>ceil(S/A) \<sqdot> A \<sqdot> C\<close>.\<close>

definition ceil_div :: "nat \<Rightarrow> nat \<Rightarrow> nat" where
  "ceil_div s a = (s + a - 1) div a"

definition spec_total_size :: "nat \<Rightarrow> nat \<Rightarrow> nat \<Rightarrow> nat" where
  "spec_total_size s a c = ceil_div s a * a * c"

text \<open>The five layout transitions the specification enumerates.\<close>

definition spec_transitions :: "(VkImageLayout \<times> VkImageLayout) set" where
  "spec_transitions =
    {(VK_IMAGE_LAYOUT_UNDEFINED, VK_IMAGE_LAYOUT_TRANSFER_DST_OPTIMAL),
     (VK_IMAGE_LAYOUT_TRANSFER_DST_OPTIMAL, VK_IMAGE_LAYOUT_SHADER_READ_ONLY_OPTIMAL),
     (VK_IMAGE_LAYOUT_UNDEFINED, VK_IMAGE_LAYOUT_DEPTH_STENCIL_ATTACHMENT_OPTIMAL),
     (VK_IMAGE_LAYOUT_TRANSFER_DST_OPTIMAL, VK_IMAGE_LAYOUT_TRANSFER_SRC_OPTIMAL),
     (VK_IMAGE_LAYOUT_TRANSFER_SRC_OPTIMAL, VK_IMAGE_LAYOUT_SHADER_READ_ONLY_OPTIMAL)}"

section \<open>Conditions on the platform and concrete inputs\<close>

text \<open>The one-shot helpers get valid handles and every call of theirs succeeds.\<close>

definition one_shot_ready :: "single_time_device \<Rightarrow> bool" where
  "one_shot_ready d \<longleftrightarrow>
     st_device d \<noteq> VK_NULL_HANDLE \<and> st_commandPool d \<noteq> VK_NULL_HANDLE \<and>
     st_queue d \<noteq> VK_NULL_HANDLE \<and>
     st_allocateCommandBuffers d = (VK_SUCCESS, snd (st_allocateCommandBuffers d)) \<and>
     snd (st_allocateCommandBuffers d) \<noteq> VK_NULL_HANDLE \<and>
     st_beginCommandBuffer d = VK_SUCCESS \<and> st_endCommandBuffer d = VK_SUCCESS \<and>
     st_createFence d = VK_SUCCESS \<and> st_queueSubmit d = VK_SUCCESS \<and>
     st_waitForFences d = VK_SUCCESS"


definition is_barrier :: "event \<Rightarrow> bool" where
  "is_barrier ev = (case ev of CmdPipelineBarrier s t b \<Rightarrow> True | _ \<Rightarrow> False)"

definition is_blit :: "event \<Rightarrow> bool" where
  "is_blit ev = (case ev of CmdBlitImage i b f \<Rightarrow> True | _ \<Rightarrow> False)"

text \<open>The index counts of the indexed draws in a list of events, in order.\<close>

fun draw_calls :: "event list \<Rightarrow> uint32_t list" where
  "draw_calls [] = []"
| "draw_calls (CmdDrawIndexed n # evs) = n # draw_calls evs"
| "draw_calls (ev # evs) = draw_calls evs"

text \<open>A renderable that is not skipped and whose material has no descriptor set.\<close>

definition unbound_material :: "(nat \<Rightarrow> Material) \<Rightarrow> RenderObjectInfo \<Rightarrow> bool" where
  "unbound_material GetMaterial renderInfo \<longleftrightarrow>
    (case mesh renderInfo of
       None \<Rightarrow> False
     | Some m \<Rightarrow> \<not> skipped renderInfo \<and> descriptorSet (GetMaterial (material m)) = VK_NULL_HANDLE)"

definition draw_of :: "RenderObjectInfo \<Rightarrow> uint32_t" where
  "draw_of renderInfo = (case mesh renderInfo of None \<Rightarrow> 0 | Some m \<Rightarrow> indexCount m)"

text \<open>
  The renderer state in which \<^verbatim>\<open>RecordCommands\<close> is called after a successful \<^verbatim>\<open>BeginFrame\<close>: the
  frame slot has its command buffer, uniform buffers and descriptor set, the acquired image has
  its framebuffer, and the uniform buffers of the slot are host-visible.
\<close>

definition record_ready :: "Renderer \<Rightarrow> bool" where
  "record_ready r \<longleftrightarrow>
     unat (m_CurrentFrameIndex r) < length (m_CommandBuffers (m_CommandManager r)) \<and>
     unat (m_CurrentImageIndex r) < length (m_SwapChainFramebuffers r) \<and>
     unat (m_CurrentFrameIndex r) < length (m_UniformBuffers r) \<and>
     unat (m_CurrentFrameIndex r) < length (m_LightUniformBuffers r) \<and>
     unat (m_CurrentFrameIndex r) < length (m_FrameDescriptorSets r) \<and>
     m_MemoryPropertyFlags (m_UniformBuffers r ! unat (m_CurrentFrameIndex r))
       AND VK_MEMORY_PROPERTY_HOST_VISIBLE_BIT \<noteq> 0 \<and>
     m_MemoryPropertyFlags (m_LightUniformBuffers r ! unat (m_CurrentFrameIndex r))
       AND VK_MEMORY_PROPERTY_HOST_VISIBLE_BIT \<noteq> 0"

subsection \<open>Concrete inputs\<close>

definition example_buffer_device :: buffer_device where
  "example_buffer_device =
     \<lparr> bd_device = 1, bd_createBuffer = (VK_SUCCESS, 7), bd_memoryTypeBits = 1,
       bd_memoryTypes = [6], bd_allocateMemory = (VK_SUCCESS, 9),
       bd_bindBufferMemory = VK_SUCCESS \<rparr>"

definition example_one_shot :: single_time_device where
  "example_one_shot =
     \<lparr> st_device = 1, st_commandPool = 2, st_queue = 3,
       st_allocateCommandBuffers = (VK_SUCCESS, 4), st_beginCommandBuffer = VK_SUCCESS,
       st_endCommandBuffer = VK_SUCCESS, st_createFence = VK_SUCCESS,
       st_queueSubmit = VK_SUCCESS, st_waitForFences = VK_SUCCESS \<rparr>"

definition example_capabilities :: VkSurfaceCapabilitiesKHR where
  "example_capabilities =
     \<lparr> cap_minImageCount = 2, cap_maxImageCount = 3,
       cap_currentExtent = \<lparr> ext_width = 800, ext_height = 600 \<rparr>,
       cap_minImageExtent = \<lparr> ext_width = 1, ext_height = 1 \<rparr>,
       cap_maxImageExtent = \<lparr> ext_width = 4096, ext_height = 4096 \<rparr> \<rparr>"

definition example_swapchain_platform :: swapchain_platform where
  "example_swapchain_platform =
     \<lparr> sp_support = \<lparr> capabilities = example_capabilities,
           formats = [\<lparr> sf_format = VK_FORMAT_B8G8R8A8_SRGB,
                        sf_colorSpace = VK_COLOR_SPACE_SRGB_NONLINEAR_KHR \<rparr>],
           presentModes = [VK_PRESENT_MODE_FIFO_KHR] \<rparr>,
       sp_queueFamilies = \<lparr> graphicsFamily = Some 0, presentFamily = Some 0 \<rparr>,
       sp_createSwapchain = (VK_SUCCESS, 9),
       sp_getImagesCount = VK_SUCCESS,
       sp_getImages = (VK_SUCCESS, [10, 11, 12]),
       sp_createImageView = (\<lambda>img. (VK_SUCCESS, img + 100)) \<rparr>"

definition example_context :: "handle \<Rightarrow> handle \<Rightarrow> VulkanContext" where
  "example_context dev surf =
     \<lparr> device = dev, physicalDevice = dev, surface = surf, imageCount = 0, minImageCount = 0 \<rparr>"

definition example_uniform_buffer :: VulkanBuffer where
  "example_uniform_buffer =
     \<lparr> m_Buffer = 7, m_Memory = 9, m_MappedMemory = True, m_BufferSize = 128,
       m_InstanceCount = 1, m_InstanceSize = 128, m_AlignmentSize = 128, m_UsageFlags = 16,
       m_MemoryPropertyFlags = 6 \<rparr>"

text \<open>A renderer on a live surface with three swapchain images, at frame slot 0.\<close>

definition example_renderer :: Renderer where
  "example_renderer =
     \<lparr> m_VulkanContext = example_context 1 5,
       m_Swapchain = \<lparr> m_CurrentWindowWidth = 800, m_CurrentWindowHeight = 600, m_SwapChain = 9,
           m_SwapChainImages = [10, 11, 12], m_SwapChainImageViews = [110, 111, 112],
           m_SwapChainImageFormat = VK_FORMAT_B8G8R8A8_SRGB,
           m_SwapChainExtent = \<lparr> ext_width = 800, ext_height = 600 \<rparr> \<rparr>,
       m_CommandManager = \<lparr> m_CommandPool = 2, m_CommandBuffers = [20, 21], m_FrameCount = 2 \<rparr>,
       m_RenderPass = 30, m_PipelineLayout = 31, m_GraphicsPipeline = 32,
       m_DepthImage = 33, m_DepthImageMemory = 34, m_DepthImageView = 35,
       m_SwapChainFramebuffers = [40, 41, 42],
       m_UniformBuffers = [example_uniform_buffer, example_uniform_buffer],
       m_LightUniformBuffers = [example_uniform_buffer, example_uniform_buffer],
       m_FrameDescriptorSets = [50, 51],
       m_ImageAvailableSemaphores = [60, 61], m_RenderFinishedSemaphores = [62, 63],
       m_InFlightFences = [64, 65],
       m_CurrentFrameIndex = 0, m_CurrentImageIndex = 0, m_FramebufferResized = False \<rparr>"

text \<open>A frame in which every platform call succeeds and image 0 is acquired.\<close>

definition example_frame_platform :: frame_platform where
  "example_frame_platform =
     \<lparr> fp_waitForFences = VK_SUCCESS, fp_acquireNextImage = (VK_SUCCESS, 0),
       fp_resetFences = VK_SUCCESS, fp_resetCommandBuffer = VK_SUCCESS,
       fp_beginCommandBuffer = VK_SUCCESS, fp_endCommandBuffer = VK_SUCCESS,
       fp_queueSubmit = VK_SUCCESS, fp_queuePresent = VK_SUCCESS, fp_mapMemory = VK_SUCCESS,
       fp_framebufferSizes = [(800, 600)], fp_swapchain = example_swapchain_platform,
       fp_dependentsFailure = None, fp_newDepthImage = 33, fp_newDepthImageMemory = 34,
       fp_newDepthImageView = 35, fp_newRenderPass = 30, fp_newPipelineLayout = 31,
       fp_newGraphicsPipeline = 32, fp_newFramebuffer = (\<lambda>view. view + 100) \<rparr>"

definition example_material :: "nat \<Rightarrow> Material" where
  "example_material h =
     (if h = 0 then \<lparr> mat_name = ''bound'', descriptorSet = 70 \<rparr>
      else \<lparr> mat_name = ''unbound'', descriptorSet = VK_NULL_HANDLE \<rparr>)"

definition example_mesh :: "uint32_t \<Rightarrow> nat \<Rightarrow> Mesh" where
  "example_mesh n h =
     \<lparr> vertexBuffer = Some example_uniform_buffer, vertexBufferOffset = 0,
       indexBuffer = Some example_uniform_buffer, indexBufferOffset = 0,
       indexCount = n, material = h \<rparr>"

definition example_renderables :: "RenderObjectInfo list" where
  "example_renderables =
     [\<lparr> mesh = Some (example_mesh 3 0), transform = Some 1 \<rparr>,
      \<lparr> mesh = None, transform = Some 2 \<rparr>,
      \<lparr> mesh = Some (example_mesh 6 1), transform = Some 3 \<rparr>,
      \<lparr> mesh = Some (example_mesh 9 0), transform = None \<rparr>,
      \<lparr> mesh = Some (example_mesh 12 2), transform = Some 4 \<rparr>]"

text \<open>The answers with which a renderer is built on a live surface.\<close>

definition example_init_platform :: init_platform where
  "example_init_platform =
     \<lparr> ip_commands = \<lparr> cp_queueFamilies = \<lparr> graphicsFamily = Some 0, presentFamily = Some 0 \<rparr>,
           cp_createCommandPool = (VK_SUCCESS, 2),
           cp_allocateCommandBuffers = (VK_SUCCESS, \<lambda>i. 20 + i) \<rparr>,
       ip_windowWidth = 800, ip_windowHeight = 600, ip_frame = example_frame_platform,
       ip_resourcesFailure = None,
       ip_uniformBuffers = [example_uniform_buffer, example_uniform_buffer],
       ip_lightUniformBuffers = [example_uniform_buffer, example_uniform_buffer],
       ip_frameDescriptorSets = [50, 51], ip_imageAvailableSemaphores = [60, 61],
       ip_renderFinishedSemaphores = [62, 63], ip_inFlightFences = [64, 65] \<rparr>"



definition example_frame_input :: frame_input where
  "example_frame_input =
     \<lparr> fi_platform = example_frame_platform, fi_GetMaterial = example_material,
       fi_uiDrawData = [], fi_renderables = example_renderables, fi_camera = None \<rparr>"

section \<open>Properties\<close>

subsection \<open>Buffer sizes\<close>

lemma and_not_mask_push_drop: "(w::64 word) AND NOT (mask k) = push_bit k (drop_bit k w)"
  by (rule bit_eqI) (auto simp: bit_simps)

lemma unat_lt64: "unat (w::64 word) < 2 ^ 64"
  using unsigned_less [of w, where ?'a = nat] by simp

lemma unat_and_not_mask: "unat ((w::64 word) AND NOT (mask k)) = (unat w div 2 ^ k) * 2 ^ k"
proof -
  have le: "(unat w div 2 ^ k) * 2 ^ k \<le> unat w"
    by simp
  have lt: "(unat w div 2 ^ k) * 2 ^ k < 2 ^ 64"
    using le unat_lt64 [of w] by (rule order_le_less_trans)
  have d: "unat (drop_bit k w) = unat w div 2 ^ k"
    unfolding unat_drop_bit_eq by (simp add: drop_bit_eq_div)
  have "unat (push_bit k (drop_bit k w)) = take_bit 64 (push_bit k (unat (drop_bit k w)))"
    by (simp add: unsigned_push_bit_eq)
  also have "\<dots> = take_bit 64 ((unat w div 2 ^ k) * 2 ^ k)"
    unfolding d by (simp add: push_bit_eq_mult)
  also have "\<dots> = (unat w div 2 ^ k) * 2 ^ k"
    using lt by (simp add: take_bit_nat_eq_self)
  finally show ?thesis by (simp add: and_not_mask_push_drop)
qed

lemma unat_2p64: "k < 64 \<Longrightarrow> unat (2 ^ k :: 64 word) = 2 ^ k"
proof -
  assume k: "k < 64"
  have "unat (of_nat (2 ^ k) :: 64 word) = 2 ^ k mod 2 ^ LENGTH(64)"
    by (rule unat_of_nat)
  also have "\<dots> = 2 ^ k"
    using k by (intro mod_less power_strict_increasing) simp_all
  finally show ?thesis by simp
qed

lemma CalculateAlignment_pow2:
  assumes k: "k < 64" and nov: "unat S + 2 ^ k - 1 < 2 ^ 64"
  shows "unat (CalculateAlignment S (2 ^ k)) = ((unat S + 2 ^ k - 1) div 2 ^ k) * 2 ^ k"
proof -
  have A: "(2 ^ k :: 64 word) - 1 = mask k" by (simp add: mask_eq_exp_minus_1)
  have pos: "(2 ^ k :: 64 word) > 0" using k by (simp add: word_gt_0)
  have um: "unat (mask k :: 64 word) = 2 ^ k - 1" using k unat_2p64[OF k]
    by (simp add: mask_eq_exp_minus_1 unat_sub word_le_nat_alt)
  have e: "S + 2 ^ k - 1 = S + mask k" using A by (simp add: add_diff_eq[symmetric])
  have u: "unat (S + mask k) = unat S + 2 ^ k - 1"
    using nov um by (simp add: unat_add_lem[THEN iffD1])
  have "CalculateAlignment S (2 ^ k) = (S + mask k) AND NOT (mask k)"
    using pos by (simp only: CalculateAlignment_def if_True e A)
  then show ?thesis
    by (simp only: unat_and_not_mask u)
qed

lemma mult_pow2_gap:
  assumes "m * 2 ^ k < (2::nat) ^ 64" and "k < 64"
  shows "m * 2 ^ k + 2 ^ k \<le> (2::nat) ^ 64"
proof -
  have split: "(2::nat) ^ 64 = 2 ^ (64 - k) * 2 ^ k"
    using assms(2) by (simp flip: power_add)
  have "m < 2 ^ (64 - k)"
    using assms(1) unfolding split by simp
  then have "Suc m \<le> 2 ^ (64 - k)" by simp
  then have "Suc m * 2 ^ k \<le> 2 ^ (64 - k) * (2::nat) ^ k"
    by (rule mult_le_mono1)
  then show ?thesis unfolding split by simp
qed

lemma ceil_no_overflow:
  assumes "ceil_div s (2 ^ k) * 2 ^ k < (2::nat) ^ 64" and "k < 64"
  shows "s + 2 ^ k - 1 < (2::nat) ^ 64"
proof -
  let ?x = "s + 2 ^ k - 1"
  have m: "?x mod 2 ^ k < 2 ^ k" by simp
  have e: "?x = (?x div 2 ^ k) * 2 ^ k + ?x mod 2 ^ k"
    by (rule div_mult_mod_eq [symmetric])
  have "?x < (?x div 2 ^ k) * 2 ^ k + 2 ^ k"
    using m e by linarith
  also have "\<dots> \<le> 2 ^ 64"
    using mult_pow2_gap [OF _ assms(2), of "?x div 2 ^ k"] assms(1)
    by (simp add: ceil_div_def)
  finally show ?thesis .
qed

lemma VulkanBuffer_new_sizes:
  assumes "VulkanBuffer_new ctx S C usage props A = (evs, Inr b)" and "C \<noteq> 0" and "S \<noteq> 0"
  shows "m_AlignmentSize b = CalculateAlignment S A \<and>
         m_BufferSize b = CalculateAlignment S A * ucast C"
  using assms
  by (auto simp: VulkanBuffer_new_def Let_def split: if_splits option.splits sum.splits)

text \<open>
  C1, as the code has it: for an element size \<open>S > 0\<close>, a count \<open>C > 0\<close> and an alignment that is
  a power of two, \<open>A = 2 ^ k\<close>, a buffer that is constructed has the total size
  \<open>ceil(S/A) \<sqdot> A \<sqdot> C\<close>, provided that this product fits into 64 bits.
\<close>

theorem buffer_total_size_pow2_alignment:
  assumes new: "VulkanBuffer_new ctx S C usage props (2 ^ k) = (evs, Inr b)"
    and S: "0 < S" and C: "0 < C" and k: "k < 64"
    and fit: "spec_total_size (unat S) (2 ^ k) (unat C) < 2 ^ 64"
  shows "unat (m_BufferSize b) = spec_total_size (unat S) (2 ^ k) (unat C)"
proof -
  let ?stride = "ceil_div (unat S) (2 ^ k) * 2 ^ k"
  have fit': "?stride * unat C < 2 ^ 64"
    using fit by (simp add: spec_total_size_def)
  have Cpos: "0 < unat C" using C by (simp add: unat_gt_0 word_gt_0)
  then have "1 \<le> unat C" by simp
  then have "?stride * 1 \<le> ?stride * unat C" by (rule mult_le_mono2)
  then have stride_fit: "?stride < 2 ^ 64"
    using fit' by linarith
  have stride: "unat (CalculateAlignment S (2 ^ k)) = ?stride"
    using CalculateAlignment_pow2 [OF k ceil_no_overflow [OF stride_fit k]]
    by (simp add: ceil_div_def)
  have uc: "unat (ucast C :: 64 word) = unat C"
  proof -
    have "unat C < 2 ^ 32" using unsigned_less [of C, where ?'a = nat] by simp
    then have "unat C < 2 ^ 64" by (rule less_trans) simp
    then show ?thesis by (simp add: unsigned_ucast_eq take_bit_nat_eq_self)
  qed
  have sz: "m_BufferSize b = CalculateAlignment S (2 ^ k) * ucast C"
    using VulkanBuffer_new_sizes [OF new] S C by (simp add: word_gt_0)
  have "unat (CalculateAlignment S (2 ^ k)) * unat (ucast C :: 64 word) < 2 ^ LENGTH(64)"
    using fit' by (simp add: stride uc)
  then have "unat (CalculateAlignment S (2 ^ k) * ucast C) =
             unat (CalculateAlignment S (2 ^ k)) * unat (ucast C :: 64 word)"
    by (rule unat_mult_lem [THEN iffD1])
  then show ?thesis by (simp add: sz stride uc spec_total_size_def)
qed

lemma example_buffer_new:
  "VulkanBuffer_new example_buffer_device 5 3 16 6 (2 ^ 2) =
     ([VkCall ''vkCreateBuffer'', VkCall ''vkGetBufferMemoryRequirements'',
       VkCall ''vkAllocateMemory'', VkCall ''vkBindBufferMemory''],
      Inr \<lparr> m_Buffer = 7, m_Memory = 9, m_MappedMemory = False, m_BufferSize = 24,
            m_InstanceCount = 3, m_InstanceSize = 5, m_AlignmentSize = 8, m_UsageFlags = 16,
            m_MemoryPropertyFlags = 6 \<rparr>)"
  by (simp add: VulkanBuffer_new_def example_buffer_device_def VulkanBuffer_init_def
      VK_NULL_HANDLE_def VK_CHECK_def findMemoryType_def CalculateAlignment_def Let_def)

theorem buffer_total_size_pow2_alignment_witness:
  "VulkanBuffer_new example_buffer_device 5 3 16 6 (2 ^ 2) =
     ([VkCall ''vkCreateBuffer'', VkCall ''vkGetBufferMemoryRequirements'',
       VkCall ''vkAllocateMemory'', VkCall ''vkBindBufferMemory''],
      Inr \<lparr> m_Buffer = 7, m_Memory = 9, m_MappedMemory = False, m_BufferSize = 24,
            m_InstanceCount = 3, m_InstanceSize = 5, m_AlignmentSize = 8, m_UsageFlags = 16,
            m_MemoryPropertyFlags = 6 \<rparr>)
   \<and> (0 :: 64 word) < 5 \<and> (0 :: 32 word) < 3 \<and> (2 :: nat) < 64
   \<and> spec_total_size (unat (5 :: 64 word)) (2 ^ 2) (unat (3 :: 32 word)) < 2 ^ 64
   \<and> unat (24 :: 64 word) = spec_total_size (unat (5 :: 64 word)) (2 ^ 2) (unat (3 :: 32 word))"
proof -
  have fit: "spec_total_size (unat (5 :: 64 word)) (2 ^ 2) (unat (3 :: 32 word)) < 2 ^ 64"
    by (simp add: spec_total_size_def ceil_div_def)
  have "unat (m_BufferSize \<lparr> m_Buffer = 7, m_Memory = 9, m_MappedMemory = False, m_BufferSize = 24,
            m_InstanceCount = 3, m_InstanceSize = 5, m_AlignmentSize = 8, m_UsageFlags = 16,
            m_MemoryPropertyFlags = 6 \<rparr>) = spec_total_size (unat (5 :: 64 word)) (2 ^ 2) (unat (3 :: 32 word))"
    by (rule buffer_total_size_pow2_alignment [OF example_buffer_new _ _ _ fit]) simp_all
  then show ?thesis using example_buffer_new fit by simp
qed

text \<open>
  C1 as stated fails for an alignment that is not a power of two: with element size 4, count 1
  and alignment 3 the buffer is constructed with total size 4, where \<open>ceil(4/3) \<sqdot> 3 \<sqdot> 1 = 6\<close>.
\<close>

theorem buffer_total_size_counterexample:
  "VulkanBuffer_new example_buffer_device 4 1 16 6 3 =
     ([VkCall ''vkCreateBuffer'', VkCall ''vkGetBufferMemoryRequirements'',
       VkCall ''vkAllocateMemory'', VkCall ''vkBindBufferMemory''],
      Inr \<lparr> m_Buffer = 7, m_Memory = 9, m_MappedMemory = False, m_BufferSize = 4,
            m_InstanceCount = 1, m_InstanceSize = 4, m_AlignmentSize = 4, m_UsageFlags = 16,
            m_MemoryPropertyFlags = 6 \<rparr>)
   \<and> spec_total_size 4 3 1 = 6"
  by (simp add: VulkanBuffer_new_def example_buffer_device_def VulkanBuffer_init_def
      VK_NULL_HANDLE_def VK_CHECK_def findMemoryType_def CalculateAlignment_def Let_def
      spec_total_size_def ceil_div_def)

text \<open>
  C10: with element count 0 or element size 0 the constructor does not throw, whatever the
  device: it logs one error, issues no Vulkan call, and returns an object with total size 0,
  aligned stride 0 and null buffer and memory handles.
\<close>

theorem buffer_zero_count_or_size:
  assumes "instanceCount = 0 \<or> instanceSize = 0"
  shows "\<exists>b. VulkanBuffer_new ctx instanceSize instanceCount usageFlags memoryPropertyFlags alignment =
           ([Log ERROR ''VulkanBuffer: Instance count or size cannot be zero.''], Inr b)
         \<and> m_BufferSize b = 0 \<and> m_AlignmentSize b = 0
         \<and> m_Buffer b = VK_NULL_HANDLE \<and> m_Memory b = VK_NULL_HANDLE"
  using assms by (auto simp: VulkanBuffer_new_def VulkanBuffer_init_def Let_def)

theorem buffer_zero_count_or_size_witness:
  "((0 :: 32 word) = 0 \<or> (16 :: 64 word) = 0) \<and>
   (\<exists>b. VulkanBuffer_new (example_buffer_device\<lparr> bd_device := VK_NULL_HANDLE \<rparr>) 16 0 16 6 1 =
           ([Log ERROR ''VulkanBuffer: Instance count or size cannot be zero.''], Inr b)
         \<and> m_BufferSize b = 0 \<and> m_AlignmentSize b = 0
         \<and> m_Buffer b = VK_NULL_HANDLE \<and> m_Memory b = VK_NULL_HANDLE)"
  using buffer_zero_count_or_size [of 0 16 "example_buffer_device\<lparr> bd_device := VK_NULL_HANDLE \<rparr>" 16 6 1]
  by simp

subsection \<open>Layout transitions\<close>

lemma BeginSingleTimeCommands_ready:
  assumes "one_shot_ready d"
  shows "BeginSingleTimeCommands d =
    ([VkCall ''vkAllocateCommandBuffers'', VkCall ''vkBeginCommandBuffer''],
     Inr (snd (st_allocateCommandBuffers d)))"
proof -
  have "fst (st_allocateCommandBuffers d) = VK_SUCCESS"
    using assms unfolding one_shot_ready_def by (metis fst_conv)
  then show ?thesis
    using assms by (simp add: one_shot_ready_def BeginSingleTimeCommands_def VK_CHECK_def)
qed

lemma EndSingleTimeCommands_ready:
  assumes "one_shot_ready d"
  shows "EndSingleTimeCommands d (snd (st_allocateCommandBuffers d)) =
    ([VkCall ''vkEndCommandBuffer'', VkCall ''vkCreateFence'', VkCall ''vkQueueSubmit'',
      VkCall ''vkWaitForFences'', VkCall ''vkDestroyFence'', VkCall ''vkFreeCommandBuffers''],
     None)"
  using assms by (simp add: one_shot_ready_def EndSingleTimeCommands_def VK_CHECK_def)

lemma transition_masks_rejects:
  "(old, new) \<notin> spec_transitions \<Longrightarrow>
     transition_masks old new =
       Inl (invalid_argument ''Unsupported layout transition in Utils::TransitionImageLayout!'')"
  by (auto simp: transition_masks_def spec_transitions_def)

lemma transition_masks_accepts:
  "(old, new) \<in> spec_transitions \<Longrightarrow> \<exists>sa da ss ds. transition_masks old new = Inr (sa, da, ss, ds)"
  by (auto simp: transition_masks_def spec_transitions_def)

text \<open>
  C2: with valid handles and a device on which the one-shot submission succeeds,
  \<^verbatim>\<open>TransitionImageLayout\<close> returns without an exception exactly for the five enumerated pairs;
  for every other pair it throws \<^verbatim>\<open>invalid_argument\<close> and records no barrier; and for each of the
  five pairs it records exactly one barrier, from the old to the new layout on the given image
  and subresource range, with these access masks and pipeline stages (source to destination):
  undefined to transfer-destination, no access to transfer-write, top-of-pipe to transfer;
  transfer-destination to shader-read-only, transfer-write to shader-read, transfer to
  fragment-shader; undefined to depth-stencil-attachment, no access to depth-stencil read and
  write, top-of-pipe to early-fragment-tests, on the depth aspect (and the stencil aspect when
  the format has one); transfer-destination to transfer-source, transfer-write to
  transfer-read, transfer to transfer; transfer-source to shader-read-only, transfer-read to
  shader-read, transfer to fragment-shader.
\<close>

theorem TransitionImageLayout_five_pairs:
  assumes ready: "one_shot_ready d"
  shows "(snd (TransitionImageLayout d img format old new mipLevels baseMip layers baseLayer) = None
            \<longleftrightarrow> (old, new) \<in> spec_transitions)
       \<and> ((old, new) \<notin> spec_transitions \<longrightarrow>
            snd (TransitionImageLayout d img format old new mipLevels baseMip layers baseLayer) =
              Some (invalid_argument ''Unsupported layout transition in Utils::TransitionImageLayout!'')
            \<and> filter is_barrier
                (fst (TransitionImageLayout d img format old new mipLevels baseMip layers baseLayer)) = [])
       \<and> ((old, new) \<in> spec_transitions \<longrightarrow>
            (\<exists>ss ds b. filter is_barrier
                (fst (TransitionImageLayout d img format old new mipLevels baseMip layers baseLayer)) =
                  [CmdPipelineBarrier ss ds b]
              \<and> b_oldLayout b = old \<and> b_newLayout b = new
              \<and> transition_masks old new = Inr (b_srcAccessMask b, b_dstAccessMask b, ss, ds)))
       \<and> filter is_barrier
            (fst (TransitionImageLayout d img format VK_IMAGE_LAYOUT_UNDEFINED
                    VK_IMAGE_LAYOUT_TRANSFER_DST_OPTIMAL mipLevels baseMip layers baseLayer)) =
            [CmdPipelineBarrier VK_PIPELINE_STAGE_TOP_OF_PIPE_BIT VK_PIPELINE_STAGE_TRANSFER_BIT
               \<lparr> b_oldLayout = VK_IMAGE_LAYOUT_UNDEFINED,
                 b_newLayout = VK_IMAGE_LAYOUT_TRANSFER_DST_OPTIMAL,
                 b_srcAccessMask = 0, b_dstAccessMask = VK_ACCESS_TRANSFER_WRITE_BIT,
                 b_image = img, b_aspectMask = VK_IMAGE_ASPECT_COLOR_BIT,
                 b_baseMipLevel = baseMip, b_levelCount = mipLevels,
                 b_baseArrayLayer = baseLayer, b_layerCount = layers \<rparr>]
       \<and> filter is_barrier
            (fst (TransitionImageLayout d img format VK_IMAGE_LAYOUT_TRANSFER_DST_OPTIMAL
                    VK_IMAGE_LAYOUT_SHADER_READ_ONLY_OPTIMAL mipLevels baseMip layers baseLayer)) =
            [CmdPipelineBarrier VK_PIPELINE_STAGE_TRANSFER_BIT VK_PIPELINE_STAGE_FRAGMENT_SHADER_BIT
               \<lparr> b_oldLayout = VK_IMAGE_LAYOUT_TRANSFER_DST_OPTIMAL,
                 b_newLayout = VK_IMAGE_LAYOUT_SHADER_READ_ONLY_OPTIMAL,
                 b_srcAccessMask = VK_ACCESS_TRANSFER_WRITE_BIT,
                 b_dstAccessMask = VK_ACCESS_SHADER_READ_BIT,
                 b_image = img, b_aspectMask = VK_IMAGE_ASPECT_COLOR_BIT,
                 b_baseMipLevel = baseMip, b_levelCount = mipLevels,
                 b_baseArrayLayer = baseLayer, b_layerCount = layers \<rparr>]
       \<and> filter is_barrier
            (fst (TransitionImageLayout d img format VK_IMAGE_LAYOUT_UNDEFINED
                    VK_IMAGE_LAYOUT_DEPTH_STENCIL_ATTACHMENT_OPTIMAL mipLevels baseMip layers baseLayer)) =
            [CmdPipelineBarrier VK_PIPELINE_STAGE_TOP_OF_PIPE_BIT
               VK_PIPELINE_STAGE_EARLY_FRAGMENT_TESTS_BIT
               \<lparr> b_oldLayout = VK_IMAGE_LAYOUT_UNDEFINED,
                 b_newLayout = VK_IMAGE_LAYOUT_DEPTH_STENCIL_ATTACHMENT_OPTIMAL,
                 b_srcAccessMask = 0,
                 b_dstAccessMask = VK_ACCESS_DEPTH_STENCIL_ATTACHMENT_READ_BIT
                                     OR VK_ACCESS_DEPTH_STENCIL_ATTACHMENT_WRITE_BIT,
                 b_image = img,
                 b_aspectMask = (if hasStencilComponent format
                                 then VK_IMAGE_ASPECT_DEPTH_BIT OR VK_IMAGE_ASPECT_STENCIL_BIT
                                 else VK_IMAGE_ASPECT_DEPTH_BIT),
                 b_baseMipLevel = baseMip, b_levelCount = mipLevels,
                 b_baseArrayLayer = baseLayer, b_layerCount = layers \<rparr>]
       \<and> filter is_barrier
            (fst (TransitionImageLayout d img format VK_IMAGE_LAYOUT_TRANSFER_DST_OPTIMAL
                    VK_IMAGE_LAYOUT_TRANSFER_SRC_OPTIMAL mipLevels baseMip layers baseLayer)) =
            [CmdPipelineBarrier VK_PIPELINE_STAGE_TRANSFER_BIT VK_PIPELINE_STAGE_TRANSFER_BIT
               \<lparr> b_oldLayout = VK_IMAGE_LAYOUT_TRANSFER_DST_OPTIMAL,
                 b_newLayout = VK_IMAGE_LAYOUT_TRANSFER_SRC_OPTIMAL,
                 b_srcAccessMask = VK_ACCESS_TRANSFER_WRITE_BIT,
                 b_dstAccessMask = VK_ACCESS_TRANSFER_READ_BIT,
                 b_image = img, b_aspectMask = VK_IMAGE_ASPECT_COLOR_BIT,
                 b_baseMipLevel = baseMip, b_levelCount = mipLevels,
                 b_baseArrayLayer = baseLayer, b_layerCount = layers \<rparr>]
       \<and> filter is_barrier
            (fst (TransitionImageLayout d img format VK_IMAGE_LAYOUT_TRANSFER_SRC_OPTIMAL
                    VK_IMAGE_LAYOUT_SHADER_READ_ONLY_OPTIMAL mipLevels baseMip layers baseLayer)) =
            [CmdPipelineBarrier VK_PIPELINE_STAGE_TRANSFER_BIT VK_PIPELINE_STAGE_FRAGMENT_SHADER_BIT
               \<lparr> b_oldLayout = VK_IMAGE_LAYOUT_TRANSFER_SRC_OPTIMAL,
                 b_newLayout = VK_IMAGE_LAYOUT_SHADER_READ_ONLY_OPTIMAL,
                 b_srcAccessMask = VK_ACCESS_TRANSFER_READ_BIT,
                 b_dstAccessMask = VK_ACCESS_SHADER_READ_BIT,
                 b_image = img, b_aspectMask = VK_IMAGE_ASPECT_COLOR_BIT,
                 b_baseMipLevel = baseMip, b_levelCount = mipLevels,
                 b_baseArrayLayer = baseLayer, b_layerCount = layers \<rparr>]"
proof -
  note run = TransitionImageLayout_def BeginSingleTimeCommands_ready [OF ready]
    EndSingleTimeCommands_ready [OF ready] is_barrier_def
  have general: "(snd (TransitionImageLayout d img format old new mipLevels baseMip layers baseLayer) = None
            \<longleftrightarrow> (old, new) \<in> spec_transitions)
       \<and> ((old, new) \<notin> spec_transitions \<longrightarrow>
            snd (TransitionImageLayout d img format old new mipLevels baseMip layers baseLayer) =
              Some (invalid_argument ''Unsupported layout transition in Utils::TransitionImageLayout!'')
            \<and> filter is_barrier
                (fst (TransitionImageLayout d img format old new mipLevels baseMip layers baseLayer)) = [])
       \<and> ((old, new) \<in> spec_transitions \<longrightarrow>
            (\<exists>ss ds b. filter is_barrier
                (fst (TransitionImageLayout d img format old new mipLevels baseMip layers baseLayer)) =
                  [CmdPipelineBarrier ss ds b]
              \<and> b_oldLayout b = old \<and> b_newLayout b = new
              \<and> transition_masks old new = Inr (b_srcAccessMask b, b_dstAccessMask b, ss, ds)))"
  proof (cases "(old, new) \<in> spec_transitions")
    case True
    then obtain sa da ss ds where m: "transition_masks old new = Inr (sa, da, ss, ds)"
      using transition_masks_accepts by blast
    show ?thesis
      using True m by (simp add: run)
  next
    case False
    show ?thesis
      using False transition_masks_rejects [OF False] by (simp add: run)
  qed
  have upload: "filter is_barrier
            (fst (TransitionImageLayout d img format VK_IMAGE_LAYOUT_UNDEFINED
                    VK_IMAGE_LAYOUT_TRANSFER_DST_OPTIMAL mipLevels baseMip layers baseLayer)) =
            [CmdPipelineBarrier VK_PIPELINE_STAGE_TOP_OF_PIPE_BIT VK_PIPELINE_STAGE_TRANSFER_BIT
               \<lparr> b_oldLayout = VK_IMAGE_LAYOUT_UNDEFINED,
                 b_newLayout = VK_IMAGE_LAYOUT_TRANSFER_DST_OPTIMAL,
                 b_srcAccessMask = 0, b_dstAccessMask = VK_ACCESS_TRANSFER_WRITE_BIT,
                 b_image = img, b_aspectMask = VK_IMAGE_ASPECT_COLOR_BIT,
                 b_baseMipLevel = baseMip, b_levelCount = mipLevels,
                 b_baseArrayLayer = baseLayer, b_layerCount = layers \<rparr>]"
    by (simp add: run transition_masks_def transition_aspect_def)
  have sample: "filter is_barrier
            (fst (TransitionImageLayout d img format VK_IMAGE_LAYOUT_TRANSFER_DST_OPTIMAL
                    VK_IMAGE_LAYOUT_SHADER_READ_ONLY_OPTIMAL mipLevels baseMip layers baseLayer)) =
            [CmdPipelineBarrier VK_PIPELINE_STAGE_TRANSFER_BIT VK_PIPELINE_STAGE_FRAGMENT_SHADER_BIT
               \<lparr> b_oldLayout = VK_IMAGE_LAYOUT_TRANSFER_DST_OPTIMAL,
                 b_newLayout = VK_IMAGE_LAYOUT_SHADER_READ_ONLY_OPTIMAL,
                 b_srcAccessMask = VK_ACCESS_TRANSFER_WRITE_BIT,
                 b_dstAccessMask = VK_ACCESS_SHADER_READ_BIT,
                 b_image = img, b_aspectMask = VK_IMAGE_ASPECT_COLOR_BIT,
                 b_baseMipLevel = baseMip, b_levelCount = mipLevels,
                 b_baseArrayLayer = baseLayer, b_layerCount = layers \<rparr>]"
    by (simp add: run transition_masks_def transition_aspect_def)
  have depth: "filter is_barrier
            (fst (TransitionImageLayout d img format VK_IMAGE_LAYOUT_UNDEFINED
                    VK_IMAGE_LAYOUT_DEPTH_STENCIL_ATTACHMENT_OPTIMAL mipLevels baseMip layers baseLayer)) =
            [CmdPipelineBarrier VK_PIPELINE_STAGE_TOP_OF_PIPE_BIT
               VK_PIPELINE_STAGE_EARLY_FRAGMENT_TESTS_BIT
               \<lparr> b_oldLayout = VK_IMAGE_LAYOUT_UNDEFINED,
                 b_newLayout = VK_IMAGE_LAYOUT_DEPTH_STENCIL_ATTACHMENT_OPTIMAL,
                 b_srcAccessMask = 0,
                 b_dstAccessMask = VK_ACCESS_DEPTH_STENCIL_ATTACHMENT_READ_BIT
                                     OR VK_ACCESS_DEPTH_STENCIL_ATTACHMENT_WRITE_BIT,
                 b_image = img,
                 b_aspectMask = (if hasStencilComponent format
                                 then VK_IMAGE_ASPECT_DEPTH_BIT OR VK_IMAGE_ASPECT_STENCIL_BIT
                                 else VK_IMAGE_ASPECT_DEPTH_BIT),
                 b_baseMipLevel = baseMip, b_levelCount = mipLevels,
                 b_baseArrayLayer = baseLayer, b_layerCount = layers \<rparr>]"
    by (simp add: run transition_masks_def transition_aspect_def)
  have blit_source: "filter is_barrier
            (fst (TransitionImageLayout d img format VK_IMAGE_LAYOUT_TRANSFER_DST_OPTIMAL
                    VK_IMAGE_LAYOUT_TRANSFER_SRC_OPTIMAL mipLevels baseMip layers baseLayer)) =
            [CmdPipelineBarrier VK_PIPELINE_STAGE_TRANSFER_BIT VK_PIPELINE_STAGE_TRANSFER_BIT
               \<lparr> b_oldLayout = VK_IMAGE_LAYOUT_TRANSFER_DST_OPTIMAL,
                 b_newLayout = VK_IMAGE_LAYOUT_TRANSFER_SRC_OPTIMAL,
                 b_srcAccessMask = VK_ACCESS_TRANSFER_WRITE_BIT,
                 b_dstAccessMask = VK_ACCESS_TRANSFER_READ_BIT,
                 b_image = img, b_aspectMask = VK_IMAGE_ASPECT_COLOR_BIT,
                 b_baseMipLevel = baseMip, b_levelCount = mipLevels,
                 b_baseArrayLayer = baseLayer, b_layerCount = layers \<rparr>]"
    by (simp add: run transition_masks_def transition_aspect_def)
  have blitted: "filter is_barrier
            (fst (TransitionImageLayout d img format VK_IMAGE_LAYOUT_TRANSFER_SRC_OPTIMAL
                    VK_IMAGE_LAYOUT_SHADER_READ_ONLY_OPTIMAL mipLevels baseMip layers baseLayer)) =
            [CmdPipelineBarrier VK_PIPELINE_STAGE_TRANSFER_BIT VK_PIPELINE_STAGE_FRAGMENT_SHADER_BIT
               \<lparr> b_oldLayout = VK_IMAGE_LAYOUT_TRANSFER_SRC_OPTIMAL,
                 b_newLayout = VK_IMAGE_LAYOUT_SHADER_READ_ONLY_OPTIMAL,
                 b_srcAccessMask = VK_ACCESS_TRANSFER_READ_BIT,
                 b_dstAccessMask = VK_ACCESS_SHADER_READ_BIT,
                 b_image = img, b_aspectMask = VK_IMAGE_ASPECT_COLOR_BIT,
                 b_baseMipLevel = baseMip, b_levelCount = mipLevels,
                 b_baseArrayLayer = baseLayer, b_layerCount = layers \<rparr>]"
    by (simp add: run transition_masks_def transition_aspect_def)
  from general upload sample depth blit_source blitted show ?thesis
    by (intro conjI) (erule conjunct1, erule conjunct2 [THEN conjunct1], erule conjunct2 [THEN conjunct2], assumption+)
qed

lemma example_one_shot_ready: "one_shot_ready example_one_shot"
  by (simp add: one_shot_ready_def example_one_shot_def VK_NULL_HANDLE_def)

theorem TransitionImageLayout_five_pairs_witness:
  "one_shot_ready example_one_shot
   \<and> (VK_IMAGE_LAYOUT_UNDEFINED, VK_IMAGE_LAYOUT_TRANSFER_DST_OPTIMAL) \<in> spec_transitions
   \<and> snd (TransitionImageLayout example_one_shot 8 VK_FORMAT_R8G8B8A8_SRGB
            VK_IMAGE_LAYOUT_UNDEFINED VK_IMAGE_LAYOUT_TRANSFER_DST_OPTIMAL 1 0 1 0) = None
   \<and> (VK_IMAGE_LAYOUT_SHADER_READ_ONLY_OPTIMAL, VK_IMAGE_LAYOUT_TRANSFER_DST_OPTIMAL) \<notin> spec_transitions
   \<and> snd (TransitionImageLayout example_one_shot 8 VK_FORMAT_R8G8B8A8_SRGB
            VK_IMAGE_LAYOUT_SHADER_READ_ONLY_OPTIMAL VK_IMAGE_LAYOUT_TRANSFER_DST_OPTIMAL 1 0 1 0) =
         Some (invalid_argument ''Unsupported layout transition in Utils::TransitionImageLayout!'')
   \<and> filter is_barrier
        (fst (TransitionImageLayout example_one_shot 8 VK_FORMAT_R8G8B8A8_SRGB
                VK_IMAGE_LAYOUT_UNDEFINED VK_IMAGE_LAYOUT_TRANSFER_DST_OPTIMAL 1 0 1 0)) =
        [CmdPipelineBarrier 0x1 0x1000
           \<lparr> b_oldLayout = VK_IMAGE_LAYOUT_UNDEFINED,
             b_newLayout = VK_IMAGE_LAYOUT_TRANSFER_DST_OPTIMAL,
             b_srcAccessMask = 0, b_dstAccessMask = 0x1000, b_image = 8, b_aspectMask = 0x1,
             b_baseMipLevel = 0, b_levelCount = 1, b_baseArrayLayer = 0, b_layerCount = 1 \<rparr>]
   \<and> filter is_barrier
        (fst (TransitionImageLayout example_one_shot 8 VK_FORMAT_R8G8B8A8_SRGB
                VK_IMAGE_LAYOUT_TRANSFER_DST_OPTIMAL VK_IMAGE_LAYOUT_SHADER_READ_ONLY_OPTIMAL 1 0 1 0)) =
        [CmdPipelineBarrier 0x1000 0x80
           \<lparr> b_oldLayout = VK_IMAGE_LAYOUT_TRANSFER_DST_OPTIMAL,
             b_newLayout = VK_IMAGE_LAYOUT_SHADER_READ_ONLY_OPTIMAL,
             b_srcAccessMask = 0x1000, b_dstAccessMask = 0x20, b_image = 8, b_aspectMask = 0x1,
             b_baseMipLevel = 0, b_levelCount = 1, b_baseArrayLayer = 0, b_layerCount = 1 \<rparr>]
   \<and> filter is_barrier
        (fst (TransitionImageLayout example_one_shot 8 VK_FORMAT_D32_SFLOAT_S8_UINT
                VK_IMAGE_LAYOUT_UNDEFINED VK_IMAGE_LAYOUT_DEPTH_STENCIL_ATTACHMENT_OPTIMAL 1 0 1 0)) =
        [CmdPipelineBarrier 0x1 0x100
           \<lparr> b_oldLayout = VK_IMAGE_LAYOUT_UNDEFINED,
             b_newLayout = VK_IMAGE_LAYOUT_DEPTH_STENCIL_ATTACHMENT_OPTIMAL,
             b_srcAccessMask = 0, b_dstAccessMask = 0x600, b_image = 8, b_aspectMask = 0x6,
             b_baseMipLevel = 0, b_levelCount = 1, b_baseArrayLayer = 0, b_layerCount = 1 \<rparr>]
   \<and> filter is_barrier
        (fst (TransitionImageLayout example_one_shot 8 VK_FORMAT_R8G8B8A8_SRGB
                VK_IMAGE_LAYOUT_TRANSFER_DST_OPTIMAL VK_IMAGE_LAYOUT_TRANSFER_SRC_OPTIMAL 1 0 1 0)) =
        [CmdPipelineBarrier 0x1000 0x1000
           \<lparr> b_oldLayout = VK_IMAGE_LAYOUT_TRANSFER_DST_OPTIMAL,
             b_newLayout = VK_IMAGE_LAYOUT_TRANSFER_SRC_OPTIMAL,
             b_srcAccessMask = 0x1000, b_dstAccessMask = 0x800, b_image = 8, b_aspectMask = 0x1,
             b_baseMipLevel = 0, b_levelCount = 1, b_baseArrayLayer = 0, b_layerCount = 1 \<rparr>]
   \<and> filter is_barrier
        (fst (TransitionImageLayout example_one_shot 8 VK_FORMAT_R8G8B8A8_SRGB
                VK_IMAGE_LAYOUT_TRANSFER_SRC_OPTIMAL VK_IMAGE_LAYOUT_SHADER_READ_ONLY_OPTIMAL 1 0 1 0)) =
        [CmdPipelineBarrier 0x1000 0x80
           \<lparr> b_oldLayout = VK_IMAGE_LAYOUT_TRANSFER_SRC_OPTIMAL,
             b_newLayout = VK_IMAGE_LAYOUT_SHADER_READ_ONLY_OPTIMAL,
             b_srcAccessMask = 0x800, b_dstAccessMask = 0x20, b_image = 8, b_aspectMask = 0x1,
             b_baseMipLevel = 0, b_levelCount = 1, b_baseArrayLayer = 0, b_layerCount = 1 \<rparr>]"
proof -
  note five = TransitionImageLayout_five_pairs [OF example_one_shot_ready]
  have a: "(VK_IMAGE_LAYOUT_UNDEFINED, VK_IMAGE_LAYOUT_TRANSFER_DST_OPTIMAL) \<in> spec_transitions"
    by (simp add: spec_transitions_def)
  have b: "(VK_IMAGE_LAYOUT_SHADER_READ_ONLY_OPTIMAL, VK_IMAGE_LAYOUT_TRANSFER_DST_OPTIMAL)
             \<notin> spec_transitions"
    by (simp add: spec_transitions_def)
  have accepted: "snd (TransitionImageLayout example_one_shot 8 VK_FORMAT_R8G8B8A8_SRGB
            VK_IMAGE_LAYOUT_UNDEFINED VK_IMAGE_LAYOUT_TRANSFER_DST_OPTIMAL 1 0 1 0) = None"
    using five [THEN conjunct1] a by (rule iffD2)
  have rejected: "snd (TransitionImageLayout example_one_shot 8 VK_FORMAT_R8G8B8A8_SRGB
            VK_IMAGE_LAYOUT_SHADER_READ_ONLY_OPTIMAL VK_IMAGE_LAYOUT_TRANSFER_DST_OPTIMAL 1 0 1 0) =
         Some (invalid_argument ''Unsupported layout transition in Utils::TransitionImageLayout!'')"
    using five [THEN conjunct2, THEN conjunct1, THEN mp, OF b, THEN conjunct1] .
  note rest = five [THEN conjunct2, THEN conjunct2, THEN conjunct2]
  note flag_defs = VK_PIPELINE_STAGE_TOP_OF_PIPE_BIT_def VK_PIPELINE_STAGE_TRANSFER_BIT_def
    VK_PIPELINE_STAGE_FRAGMENT_SHADER_BIT_def VK_PIPELINE_STAGE_EARLY_FRAGMENT_TESTS_BIT_def
    VK_ACCESS_TRANSFER_WRITE_BIT_def VK_ACCESS_TRANSFER_READ_BIT_def VK_ACCESS_SHADER_READ_BIT_def
    VK_ACCESS_DEPTH_STENCIL_ATTACHMENT_READ_BIT_def VK_ACCESS_DEPTH_STENCIL_ATTACHMENT_WRITE_BIT_def
    VK_IMAGE_ASPECT_COLOR_BIT_def VK_IMAGE_ASPECT_DEPTH_BIT_def VK_IMAGE_ASPECT_STENCIL_BIT_def
  have upload: "filter is_barrier
        (fst (TransitionImageLayout example_one_shot 8 VK_FORMAT_R8G8B8A8_SRGB
                VK_IMAGE_LAYOUT_UNDEFINED VK_IMAGE_LAYOUT_TRANSFER_DST_OPTIMAL 1 0 1 0)) =
        [CmdPipelineBarrier 0x1 0x1000
           \<lparr> b_oldLayout = VK_IMAGE_LAYOUT_UNDEFINED,
             b_newLayout = VK_IMAGE_LAYOUT_TRANSFER_DST_OPTIMAL,
             b_srcAccessMask = 0, b_dstAccessMask = 0x1000, b_image = 8, b_aspectMask = 0x1,
             b_baseMipLevel = 0, b_levelCount = 1, b_baseArrayLayer = 0, b_layerCount = 1 \<rparr>]"
    using rest [THEN conjunct1, of 8 VK_FORMAT_R8G8B8A8_SRGB 1 0 1 0] by (simp add: flag_defs)
  have sample: "filter is_barrier
        (fst (TransitionImageLayout example_one_shot 8 VK_FORMAT_R8G8B8A8_SRGB
                VK_IMAGE_LAYOUT_TRANSFER_DST_OPTIMAL VK_IMAGE_LAYOUT_SHADER_READ_ONLY_OPTIMAL 1 0 1 0)) =
        [CmdPipelineBarrier 0x1000 0x80
           \<lparr> b_oldLayout = VK_IMAGE_LAYOUT_TRANSFER_DST_OPTIMAL,
             b_newLayout = VK_IMAGE_LAYOUT_SHADER_READ_ONLY_OPTIMAL,
             b_srcAccessMask = 0x1000, b_dstAccessMask = 0x20, b_image = 8, b_aspectMask = 0x1,
             b_baseMipLevel = 0, b_levelCount = 1, b_baseArrayLayer = 0, b_layerCount = 1 \<rparr>]"
    using rest [THEN conjunct2, THEN conjunct1, of 8 VK_FORMAT_R8G8B8A8_SRGB 1 0 1 0]
    by (simp add: flag_defs)
  have depth: "filter is_barrier
        (fst (TransitionImageLayout example_one_shot 8 VK_FORMAT_D32_SFLOAT_S8_UINT
                VK_IMAGE_LAYOUT_UNDEFINED VK_IMAGE_LAYOUT_DEPTH_STENCIL_ATTACHMENT_OPTIMAL 1 0 1 0)) =
        [CmdPipelineBarrier 0x1 0x100
           \<lparr> b_oldLayout = VK_IMAGE_LAYOUT_UNDEFINED,
             b_newLayout = VK_IMAGE_LAYOUT_DEPTH_STENCIL_ATTACHMENT_OPTIMAL,
             b_srcAccessMask = 0, b_dstAccessMask = 0x600, b_image = 8, b_aspectMask = 0x6,
             b_baseMipLevel = 0, b_levelCount = 1, b_baseArrayLayer = 0, b_layerCount = 1 \<rparr>]"
    using rest [THEN conjunct2, THEN conjunct2, THEN conjunct1, of 8 VK_FORMAT_D32_SFLOAT_S8_UINT 1 0 1 0]
    by (simp add: flag_defs hasStencilComponent_def)
  have blit_source: "filter is_barrier
        (fst (TransitionImageLayout example_one_shot 8 VK_FORMAT_R8G8B8A8_SRGB
                VK_IMAGE_LAYOUT_TRANSFER_DST_OPTIMAL VK_IMAGE_LAYOUT_TRANSFER_SRC_OPTIMAL 1 0 1 0)) =
        [CmdPipelineBarrier 0x1000 0x1000
           \<lparr> b_oldLayout = VK_IMAGE_LAYOUT_TRANSFER_DST_OPTIMAL,
             b_newLayout = VK_IMAGE_LAYOUT_TRANSFER_SRC_OPTIMAL,
             b_srcAccessMask = 0x1000, b_dstAccessMask = 0x800, b_image = 8, b_aspectMask = 0x1,
             b_baseMipLevel = 0, b_levelCount = 1, b_baseArrayLayer = 0, b_layerCount = 1 \<rparr>]"
    using rest [THEN conjunct2, THEN conjunct2, THEN conjunct2, THEN conjunct1,
        of 8 VK_FORMAT_R8G8B8A8_SRGB 1 0 1 0]
    by (simp add: flag_defs)
  have blitted: "filter is_barrier
        (fst (TransitionImageLayout example_one_shot 8 VK_FORMAT_R8G8B8A8_SRGB
                VK_IMAGE_LAYOUT_TRANSFER_SRC_OPTIMAL VK_IMAGE_LAYOUT_SHADER_READ_ONLY_OPTIMAL 1 0 1 0)) =
        [CmdPipelineBarrier 0x1000 0x80
           \<lparr> b_oldLayout = VK_IMAGE_LAYOUT_TRANSFER_SRC_OPTIMAL,
             b_newLayout = VK_IMAGE_LAYOUT_SHADER_READ_ONLY_OPTIMAL,
             b_srcAccessMask = 0x800, b_dstAccessMask = 0x20, b_image = 8, b_aspectMask = 0x1,
             b_baseMipLevel = 0, b_levelCount = 1, b_baseArrayLayer = 0, b_layerCount = 1 \<rparr>]"
    using rest [THEN conjunct2, THEN conjunct2, THEN conjunct2, THEN conjunct2,
        of 8 VK_FORMAT_R8G8B8A8_SRGB 1 0 1 0]
    by (simp add: flag_defs)
  show ?thesis
    using a b example_one_shot_ready accepted rejected upload sample depth blit_source blitted
    by (intro conjI)
qed

subsection \<open>Mipmap generation\<close>


lemma one_shot_events_no_blit:
  "filter is_blit [VkCall a, VkCall b] = []"
  "filter is_blit [VkCall a, VkCall b, VkCall c, VkCall d, VkCall e, VkCall f] = []"
  by (simp_all add: is_blit_def)




subsection \<open>Swapchain construction\<close>

text \<open>
  C7, as the code has it: on a real (non-null) device, construction throws when the live surface
  reports no format or no present mode, and it also throws when there is no surface; only on a
  null device (the dummy context) does it complete without an exception, whatever the surface,
  with no platform swapchain, no image and no view, and the context unchanged.
\<close>

theorem Swapchain_new_failure_modes:
  "(device ctx \<noteq> VK_NULL_HANDLE \<and> surface ctx \<noteq> VK_NULL_HANDLE
      \<and> (formats (sp_support p) = [] \<or> presentModes (sp_support p) = []) \<longrightarrow>
      snd (Swapchain_new ctx p width height previous) =
        Inl (runtime_error ''Device does not adequately support swapchains (no formats/present modes).''))
   \<and> (device ctx \<noteq> VK_NULL_HANDLE \<and> surface ctx = VK_NULL_HANDLE \<longrightarrow>
      snd (Swapchain_new ctx p width height previous) =
        Inl (runtime_error ''Cannot initialize swapchain with null device or surface.''))
   \<and> (device ctx = VK_NULL_HANDLE \<longrightarrow>
      (\<exists>sw. snd (Swapchain_new ctx p width height previous) = Inr (sw, ctx)
         \<and> m_SwapChain sw = VK_NULL_HANDLE
         \<and> m_SwapChainImages sw = [] \<and> m_SwapChainImageViews sw = []))"
  by (auto simp: Swapchain_new_def Swapchain_Init_def CreateActualSwapchain_def
      QuerySwapChainSupport_def Let_def)

theorem Swapchain_new_failure_modes_witness:
  "device (example_context 1 5) \<noteq> VK_NULL_HANDLE \<and> surface (example_context 1 5) \<noteq> VK_NULL_HANDLE
   \<and> (formats (sp_support (example_swapchain_platform
          \<lparr> sp_support := (sp_support example_swapchain_platform)\<lparr> formats := [] \<rparr> \<rparr>)) = []
       \<or> presentModes (sp_support (example_swapchain_platform
          \<lparr> sp_support := (sp_support example_swapchain_platform)\<lparr> formats := [] \<rparr> \<rparr>)) = [])
   \<and> snd (Swapchain_new (example_context 1 5)
            (example_swapchain_platform
               \<lparr> sp_support := (sp_support example_swapchain_platform)\<lparr> formats := [] \<rparr> \<rparr>)
            800 600 VK_NULL_HANDLE) =
        Inl (runtime_error ''Device does not adequately support swapchains (no formats/present modes).'')
   \<and> device (example_context 1 0) \<noteq> VK_NULL_HANDLE \<and> surface (example_context 1 0) = VK_NULL_HANDLE
   \<and> snd (Swapchain_new (example_context 1 0) example_swapchain_platform 800 600 VK_NULL_HANDLE) =
        Inl (runtime_error ''Cannot initialize swapchain with null device or surface.'')
   \<and> device (example_context 0 0) = VK_NULL_HANDLE
   \<and> (\<exists>sw. snd (Swapchain_new (example_context 0 0) example_swapchain_platform 800 600 VK_NULL_HANDLE) =
              Inr (sw, example_context 0 0)
         \<and> m_SwapChain sw = VK_NULL_HANDLE
         \<and> m_SwapChainImages sw = [] \<and> m_SwapChainImageViews sw = [])"
proof -
  let ?p = "example_swapchain_platform
               \<lparr> sp_support := (sp_support example_swapchain_platform)\<lparr> formats := [] \<rparr> \<rparr>"
  have a: "device (example_context 1 5) \<noteq> VK_NULL_HANDLE \<and> surface (example_context 1 5) \<noteq> VK_NULL_HANDLE
      \<and> (formats (sp_support ?p) = [] \<or> presentModes (sp_support ?p) = [])"
    by (simp add: example_context_def VK_NULL_HANDLE_def)
  have b: "device (example_context 1 0) \<noteq> VK_NULL_HANDLE \<and> surface (example_context 1 0) = VK_NULL_HANDLE"
    by (simp add: example_context_def VK_NULL_HANDLE_def)
  have c: "device (example_context 0 0) = VK_NULL_HANDLE"
    by (simp add: example_context_def VK_NULL_HANDLE_def)
  note t1 = Swapchain_new_failure_modes [THEN conjunct1, THEN mp, OF a, of 800 600 VK_NULL_HANDLE]
  note t2 = Swapchain_new_failure_modes [THEN conjunct2, THEN conjunct1, THEN mp, OF b,
      of example_swapchain_platform 800 600 VK_NULL_HANDLE]
  note t3 = Swapchain_new_failure_modes [THEN conjunct2, THEN conjunct2, THEN mp, OF c,
      of example_swapchain_platform 800 600 VK_NULL_HANDLE]
  show ?thesis
    using a b c t1 t2 t3 by (intro conjI) simp_all
qed

text \<open>
  C7 as stated fails for a surface-less construction on a real device: it is not completed
  without error, it throws.
\<close>

theorem Swapchain_new_counterexample:
  "surface (example_context 1 0) = VK_NULL_HANDLE
   \<and> Swapchain_new (example_context 1 0) example_swapchain_platform 800 600 VK_NULL_HANDLE =
       ([Log ERROR ''Swapchain::Init: Vulkan device or surface is NULL. Cannot create swapchain.''],
        Inl (runtime_error ''Cannot initialize swapchain with null device or surface.''))"
  by (simp add: Swapchain_new_def Swapchain_Init_def example_context_def VK_NULL_HANDLE_def)

subsection \<open>Extent selection\<close>

lemma std_clamp_max_min: "lo \<le> hi \<Longrightarrow> std_clamp v lo hi = max lo (min hi v)"
  by (auto simp: std_clamp_def max_def min_def)

text \<open>
  C9: when the capability's current-extent width is not the sentinel \<open>0xFFFFFFFF\<close>, the current
  extent is returned whatever size is requested; otherwise the requested width and height are
  each clamped into the range from the minimum to the maximum image extent (a range:
  minimum \<open>\<le>\<close> maximum on each axis).
\<close>

theorem ChooseSwapExtent_selection:
  "(ext_width (cap_currentExtent caps) \<noteq> 0xFFFFFFFF \<longrightarrow>
      ChooseSwapExtent caps windowWidth windowHeight = cap_currentExtent caps)
   \<and> (ext_width (cap_currentExtent caps) = 0xFFFFFFFF
      \<and> ext_width (cap_minImageExtent caps) \<le> ext_width (cap_maxImageExtent caps)
      \<and> ext_height (cap_minImageExtent caps) \<le> ext_height (cap_maxImageExtent caps) \<longrightarrow>
      ChooseSwapExtent caps windowWidth windowHeight =
        \<lparr> ext_width = max (ext_width (cap_minImageExtent caps))
                         (min (ext_width (cap_maxImageExtent caps)) windowWidth),
          ext_height = max (ext_height (cap_minImageExtent caps))
                         (min (ext_height (cap_maxImageExtent caps)) windowHeight) \<rparr>
      \<and> ext_width (cap_minImageExtent caps) \<le> ext_width (ChooseSwapExtent caps windowWidth windowHeight)
      \<and> ext_width (ChooseSwapExtent caps windowWidth windowHeight) \<le> ext_width (cap_maxImageExtent caps)
      \<and> ext_height (cap_minImageExtent caps) \<le> ext_height (ChooseSwapExtent caps windowWidth windowHeight)
      \<and> ext_height (ChooseSwapExtent caps windowWidth windowHeight) \<le> ext_height (cap_maxImageExtent caps))"
  by (simp add: ChooseSwapExtent_def std_clamp_max_min)

theorem ChooseSwapExtent_selection_witness:
  "ext_width (cap_currentExtent example_capabilities) \<noteq> 0xFFFFFFFF
   \<and> ChooseSwapExtent example_capabilities 1024 768 = \<lparr> ext_width = 800, ext_height = 600 \<rparr>
   \<and> ext_width (cap_currentExtent (example_capabilities
        \<lparr> cap_currentExtent := \<lparr> ext_width = 0xFFFFFFFF, ext_height = 0xFFFFFFFF \<rparr> \<rparr>)) = 0xFFFFFFFF
   \<and> ChooseSwapExtent (example_capabilities
        \<lparr> cap_currentExtent := \<lparr> ext_width = 0xFFFFFFFF, ext_height = 0xFFFFFFFF \<rparr> \<rparr>) 5000 0 =
       \<lparr> ext_width = 4096, ext_height = 1 \<rparr>"
proof -
  let ?free = "example_capabilities
        \<lparr> cap_currentExtent := \<lparr> ext_width = 0xFFFFFFFF, ext_height = 0xFFFFFFFF \<rparr> \<rparr>"
  have fixed: "ext_width (cap_currentExtent example_capabilities) \<noteq> 0xFFFFFFFF"
    by (simp add: example_capabilities_def)
  have free: "ext_width (cap_currentExtent ?free) = 0xFFFFFFFF
      \<and> ext_width (cap_minImageExtent ?free) \<le> ext_width (cap_maxImageExtent ?free)
      \<and> ext_height (cap_minImageExtent ?free) \<le> ext_height (cap_maxImageExtent ?free)"
    by (simp add: example_capabilities_def word_le_nat_alt)
  note t1 = ChooseSwapExtent_selection [THEN conjunct1, THEN mp, OF fixed, of 1024 768]
  note t2 = ChooseSwapExtent_selection [THEN conjunct2, THEN mp, OF free, THEN conjunct1, of 5000 0]
  have m1: "max (1 :: 32 word) (min 4096 5000) = 4096"
    by (simp add: max_def min_def word_le_nat_alt)
  have m2: "max (1 :: 32 word) (min 4096 0) = 1"
    by (simp add: max_def min_def word_le_nat_alt)
  show ?thesis
    using fixed free t1 t2 m1 m2 by (simp add: example_capabilities_def)
qed

subsection \<open>Sequencing\<close>

lemma then_do_returns: "then_do (returns x) f = f x"
  by (simp add: then_do_def returns_def split: prod.splits)

lemma then_do_throws: "then_do (throws e) f = throws e"
  by (simp add: then_do_def throws_def)

lemma then_do_emits: "then_do (emits evs) f = (evs @ fst (f ()), snd (f ()))"
  by (simp add: then_do_def emits_def split: prod.splits)

lemma then_do_terminating_Inr:
  "snd m = Inr x \<Longrightarrow> then_do (terminating m) f = (fst m @ fst (f x), snd (f x))"
  by (simp add: then_do_def terminating_def split: prod.splits)

lemma then_do_terminating_Inl:
  "snd m = Inl e \<Longrightarrow> then_do (terminating m) f = (fst m, Some (Inl e))"
  by (simp add: then_do_def terminating_def split: prod.splits)

lemma then_do_vk_checked_success:
  "then_do (vk_checked name VK_SUCCESS) f = (VkCall name # fst (f ()), snd (f ()))"
  by (simp add: then_do_def vk_checked_def VK_CHECK_def split: prod.splits)

lemma then_do_vk_checked_failure:
  "res \<noteq> VK_SUCCESS \<Longrightarrow>
   then_do (vk_checked name res) f = ([VkCall name], Some (Inl (vk_check_failed res)))"
  by (simp add: then_do_def vk_checked_def VK_CHECK_def)

lemmas then_do_simps = then_do_returns then_do_throws then_do_emits then_do_vk_checked_success

subsection \<open>Recording draw commands\<close>

lemma draw_calls_append: "draw_calls (xs @ ys) = draw_calls xs @ draw_calls ys"
proof (induction xs)
  case Nil
  show ?case by simp
next
  case (Cons ev xs)
  then show ?case by (cases ev) simp_all
qed

lemma draw_renderables_skip:
  "skipped renderInfo \<Longrightarrow>
   draw_renderables GetMaterial logged_once (renderInfo # rest) =
   draw_renderables GetMaterial logged_once rest"
  by (auto simp: skipped_def split: option.splits)

lemma draw_renderables_draw:
  assumes "\<not> skipped renderInfo"
  shows "\<exists>m t vb ib. mesh renderInfo = Some m \<and> transform renderInfo = Some t
      \<and> vertexBuffer m = Some vb \<and> indexBuffer m = Some ib
      \<and> draw_renderables GetMaterial logged_once (renderInfo # rest) =
        ([CmdPushConstants t] @
         (if descriptorSet (GetMaterial (material m)) \<noteq> VK_NULL_HANDLE
          then [CmdBindDescriptorSets 1 (descriptorSet (GetMaterial (material m)))]
          else if \<not> logged_once then [soft_binding_warning] else []) @
         [CmdBindVertexBuffers (m_Buffer vb) (vertexBufferOffset m),
          CmdBindIndexBuffer (m_Buffer ib) (indexBufferOffset m),
          CmdDrawIndexed (indexCount m)] @
         fst (draw_renderables GetMaterial
                (logged_once \<or> descriptorSet (GetMaterial (material m)) = VK_NULL_HANDLE) rest),
         snd (draw_renderables GetMaterial
                (logged_once \<or> descriptorSet (GetMaterial (material m)) = VK_NULL_HANDLE) rest))"
  using assms
  by (auto simp: skipped_def Let_def split: option.splits prod.splits)

declare draw_renderables.simps(2) [simp del]

lemma draw_renderables_draws:
  "draw_calls (fst (draw_renderables GetMaterial logged_once renderables)) =
   map draw_of (filter (\<lambda>renderInfo. \<not> skipped renderInfo) renderables)"
proof (induction renderables arbitrary: logged_once)
  case Nil
  show ?case by simp
next
  case (Cons renderInfo rest)
  show ?case
  proof (cases "skipped renderInfo")
    case True
    then show ?thesis
      using Cons.IH by (simp add: draw_renderables_skip)
  next
    case False
    from draw_renderables_draw [OF False, of GetMaterial logged_once rest]
    obtain m t and vb ib :: VulkanBuffer where m: "mesh renderInfo = Some m"
      and eq: "draw_renderables GetMaterial logged_once (renderInfo # rest) =
        ([CmdPushConstants t] @
         (if descriptorSet (GetMaterial (material m)) \<noteq> VK_NULL_HANDLE
          then [CmdBindDescriptorSets 1 (descriptorSet (GetMaterial (material m)))]
          else if \<not> logged_once then [soft_binding_warning] else []) @
         [CmdBindVertexBuffers (m_Buffer vb) (vertexBufferOffset m),
          CmdBindIndexBuffer (m_Buffer ib) (indexBufferOffset m),
          CmdDrawIndexed (indexCount m)] @
         fst (draw_renderables GetMaterial
                (logged_once \<or> descriptorSet (GetMaterial (material m)) = VK_NULL_HANDLE) rest),
         snd (draw_renderables GetMaterial
                (logged_once \<or> descriptorSet (GetMaterial (material m)) = VK_NULL_HANDLE) rest))"
      by blast
    show ?thesis
      using False m Cons.IH
      by (simp add: eq draw_calls_append soft_binding_warning_def draw_of_def)
  qed
qed

lemma draw_renderables_flag:
  "snd (draw_renderables GetMaterial logged_once renderables) \<longleftrightarrow>
   logged_once \<or> (\<exists>renderInfo \<in> set renderables. unbound_material GetMaterial renderInfo)"
proof (induction renderables arbitrary: logged_once)
  case Nil
  show ?case by simp
next
  case (Cons renderInfo rest)
  show ?case
  proof (cases "skipped renderInfo")
    case True
    then have "\<not> unbound_material GetMaterial renderInfo"
      by (simp add: unbound_material_def split: option.splits)
    then show ?thesis
      using True Cons.IH by (simp add: draw_renderables_skip)
  next
    case False
    from draw_renderables_draw [OF False, of GetMaterial logged_once rest]
    obtain m where m: "mesh renderInfo = Some m"
      and eq: "snd (draw_renderables GetMaterial logged_once (renderInfo # rest)) =
         snd (draw_renderables GetMaterial
                (logged_once \<or> descriptorSet (GetMaterial (material m)) = VK_NULL_HANDLE) rest)"
      by force
    have u: "unbound_material GetMaterial renderInfo \<longleftrightarrow>
             descriptorSet (GetMaterial (material m)) = VK_NULL_HANDLE"
      using False m by (simp add: unbound_material_def)
    show ?thesis
      using Cons.IH by (auto simp: eq u)
  qed
qed

lemma draw_renderables_warnings:
  "count_list (fst (draw_renderables GetMaterial logged_once renderables)) soft_binding_warning =
   (if \<not> logged_once \<and> (\<exists>renderInfo \<in> set renderables. unbound_material GetMaterial renderInfo)
    then 1 else 0)"
proof (induction renderables arbitrary: logged_once)
  case Nil
  show ?case by simp
next
  case (Cons renderInfo rest)
  show ?case
  proof (cases "skipped renderInfo")
    case True
    then have "\<not> unbound_material GetMaterial renderInfo"
      by (simp add: unbound_material_def split: option.splits)
    then show ?thesis
      using True Cons.IH by (simp add: draw_renderables_skip)
  next
    case False
    from draw_renderables_draw [OF False, of GetMaterial logged_once rest]
    obtain m t and vb ib :: VulkanBuffer where m: "mesh renderInfo = Some m"
      and eq: "fst (draw_renderables GetMaterial logged_once (renderInfo # rest)) =
         [CmdPushConstants t] @
         (if descriptorSet (GetMaterial (material m)) \<noteq> VK_NULL_HANDLE
          then [CmdBindDescriptorSets 1 (descriptorSet (GetMaterial (material m)))]
          else if \<not> logged_once then [soft_binding_warning] else []) @
         [CmdBindVertexBuffers (m_Buffer vb) (vertexBufferOffset m),
          CmdBindIndexBuffer (m_Buffer ib) (indexBufferOffset m),
          CmdDrawIndexed (indexCount m)] @
         fst (draw_renderables GetMaterial
                (logged_once \<or> descriptorSet (GetMaterial (material m)) = VK_NULL_HANDLE) rest)"
      by force
    have u: "unbound_material GetMaterial renderInfo \<longleftrightarrow>
             descriptorSet (GetMaterial (material m)) = VK_NULL_HANDLE"
      using False m by (simp add: unbound_material_def)
    show ?thesis
      using Cons.IH [of "logged_once \<or> descriptorSet (GetMaterial (material m)) = VK_NULL_HANDLE"]
      by (auto simp: eq u soft_binding_warning_def)
  qed
qed

lemma WriteToBuffer_host_visible:
  "m_MemoryPropertyFlags b AND VK_MEMORY_PROPERTY_HOST_VISIBLE_BIT \<noteq> 0 \<Longrightarrow>
   snd (WriteToBuffer b mapResult) = Inr ()"
  by (simp add: WriteToBuffer_def)

lemma WriteToBuffer_quiet:
  "draw_calls (fst (WriteToBuffer b mapResult)) = [] \<and>
   count_list (fst (WriteToBuffer b mapResult)) soft_binding_warning = 0"
  by (simp add: WriteToBuffer_def soft_binding_warning_def)


lemma RecordCommands_trace:
  assumes ready: "record_ready r"
  shows "RecordCommands r p GetMaterial uiDrawData logged_once renderables camera =
           (([VkCall ''vkCmdBeginRenderPass'', VkCall ''vkCmdBindPipeline'',
              VkCall ''vkCmdSetViewport'', VkCall ''vkCmdSetScissor''] @
             fst (WriteToBuffer (m_UniformBuffers r ! unat (m_CurrentFrameIndex r)) (fp_mapMemory p)) @
             fst (WriteToBuffer (m_LightUniformBuffers r ! unat (m_CurrentFrameIndex r)) (fp_mapMemory p)) @
             [CmdBindDescriptorSets 0 (m_FrameDescriptorSets r ! unat (m_CurrentFrameIndex r))]) @
            fst (draw_renderables GetMaterial logged_once renderables) @ uiDrawData @
              [VkCall ''vkCmdEndRenderPass''],
            Some (Inr (snd (draw_renderables GetMaterial logged_once renderables))))"
proof -
  let ?slot = "unat (m_CurrentFrameIndex r)"
  let ?w1 = "WriteToBuffer (m_UniformBuffers r ! ?slot) (fp_mapMemory p)"
  let ?w2 = "WriteToBuffer (m_LightUniformBuffers r ! ?slot) (fp_mapMemory p)"
  have cb: "snd ([] :: event list, GetCurrentCommandBuffer r) =
              Inr (m_CommandBuffers (m_CommandManager r) ! ?slot)"
    using ready by (simp add: record_ready_def GetCurrentCommandBuffer_def)
  have w1: "snd ?w1 = Inr ()"
    using ready by (intro WriteToBuffer_host_visible) (simp add: record_ready_def)
  have w2: "snd ?w2 = Inr ()"
    using ready by (intro WriteToBuffer_host_visible) (simp add: record_ready_def)
  have idx: "\<not> length (m_SwapChainFramebuffers r) \<le> unat (m_CurrentImageIndex r)"
    "\<not> length (m_UniformBuffers r) \<le> ?slot"
    "\<not> length (m_LightUniformBuffers r) \<le> ?slot"
    "\<not> length (m_FrameDescriptorSets r) \<le> ?slot"
    using ready by (simp_all add: record_ready_def)
  show ?thesis
    unfolding RecordCommands_def
    by (simp add: then_do_terminating_Inr [OF cb] then_do_terminating_Inr [OF w1]
        then_do_terminating_Inr [OF w2] idx then_do_simps returns_def)
qed

text \<open>
  C6, as the code has it: in the state a successful \<^verbatim>\<open>BeginFrame\<close> leaves (the frame slot and the
  acquired image have their resources, the slot's uniform buffers are host-visible),
  \<^verbatim>\<open>RecordCommands\<close> returns without an exception for every list of renderables. Its trace is the
  pass set-up, the commands of the renderables, the UI's commands and the end of the pass. The
  set-up draws and warns nothing; the renderables' commands hold one indexed draw for each
  renderable that is not skipped (none of mesh, transform, vertex buffer, index buffer null),
  in order, so also for those whose material has no descriptor set. The soft-binding warning
  is logged once per process, not once per cause or per call: a call logs it exactly once if
  the warn-once flag of the call site is still unset and some drawn renderable has a material
  without descriptor set, however many such renderables or materials there are, and not at
  all otherwise; the flag is set from then on.
\<close>

theorem RecordCommands_soft_failures:
  assumes ready: "record_ready r"
  shows "\<exists>prelude. RecordCommands r p GetMaterial uiDrawData logged_once renderables camera =
           (prelude @ fst (draw_renderables GetMaterial logged_once renderables) @ uiDrawData @
              [VkCall ''vkCmdEndRenderPass''],
            Some (Inr (logged_once \<or>
               (\<exists>renderInfo \<in> set renderables. unbound_material GetMaterial renderInfo))))
         \<and> draw_calls prelude = [] \<and> count_list prelude soft_binding_warning = 0
         \<and> draw_calls (fst (draw_renderables GetMaterial logged_once renderables)) =
             map draw_of (filter (\<lambda>renderInfo. \<not> skipped renderInfo) renderables)
         \<and> count_list (fst (draw_renderables GetMaterial logged_once renderables))
               soft_binding_warning =
             (if \<not> logged_once \<and>
                 (\<exists>renderInfo \<in> set renderables. unbound_material GetMaterial renderInfo)
              then 1 else 0)"
proof -
  let ?slot = "unat (m_CurrentFrameIndex r)"
  let ?w1 = "WriteToBuffer (m_UniformBuffers r ! ?slot) (fp_mapMemory p)"
  let ?w2 = "WriteToBuffer (m_LightUniformBuffers r ! ?slot) (fp_mapMemory p)"
  let ?prelude = "[VkCall ''vkCmdBeginRenderPass'', VkCall ''vkCmdBindPipeline'',
                 VkCall ''vkCmdSetViewport'', VkCall ''vkCmdSetScissor''] @ fst ?w1 @ fst ?w2 @
                [CmdBindDescriptorSets 0 (m_FrameDescriptorSets r ! ?slot)]"
  note run = RecordCommands_trace [OF ready, of p GetMaterial uiDrawData logged_once renderables camera]
  have quiet: "draw_calls ?prelude = [] \<and> count_list ?prelude soft_binding_warning = 0"
    using WriteToBuffer_quiet [of "m_UniformBuffers r ! ?slot" "fp_mapMemory p"]
      WriteToBuffer_quiet [of "m_LightUniformBuffers r ! ?slot" "fp_mapMemory p"]
    by (simp add: draw_calls_append soft_binding_warning_def)
  show ?thesis
    using run quiet draw_renderables_draws [of GetMaterial logged_once renderables]
      draw_renderables_warnings [of GetMaterial logged_once renderables]
      draw_renderables_flag [of GetMaterial logged_once renderables]
    by (intro exI [of _ ?prelude]) simp
qed

lemma example_renderer_ready: "record_ready example_renderer"
  by (simp add: record_ready_def example_renderer_def example_uniform_buffer_def
      VK_MEMORY_PROPERTY_HOST_VISIBLE_BIT_def)

lemma example_renderables_drawn:
  "map draw_of (filter (\<lambda>renderInfo. \<not> skipped renderInfo) example_renderables) = [3, 6, 12]"
  by (simp add: example_renderables_def skipped_def draw_of_def example_mesh_def)

lemma example_renderables_unbound:
  "\<exists>renderInfo \<in> set example_renderables. unbound_material example_material renderInfo"
  by (simp add: example_renderables_def unbound_material_def skipped_def example_mesh_def
      example_material_def)

theorem RecordCommands_soft_failures_witness:
  "record_ready example_renderer
   \<and> (\<exists>prelude. RecordCommands example_renderer example_frame_platform example_material []
                 False example_renderables None =
           (prelude @ fst (draw_renderables example_material False example_renderables) @ [] @
              [VkCall ''vkCmdEndRenderPass''], Some (Inr True)))
   \<and> draw_calls (fst (draw_renderables example_material False example_renderables)) = [3, 6, 12]
   \<and> count_list (fst (draw_renderables example_material False example_renderables))
        soft_binding_warning = 1
   \<and> (\<exists>prelude. RecordCommands example_renderer example_frame_platform example_material []
                 True example_renderables None =
           (prelude @ fst (draw_renderables example_material True example_renderables) @ [] @
              [VkCall ''vkCmdEndRenderPass''], Some (Inr True)))
   \<and> draw_calls (fst (draw_renderables example_material True example_renderables)) = [3, 6, 12]
   \<and> count_list (fst (draw_renderables example_material True example_renderables))
        soft_binding_warning = 0"
  using example_renderer_ready example_renderables_drawn example_renderables_unbound
    RecordCommands_soft_failures [OF example_renderer_ready, of example_frame_platform
      example_material "[]" False example_renderables None]
    RecordCommands_soft_failures [OF example_renderer_ready, of example_frame_platform
      example_material "[]" True example_renderables None]
  by auto

lemma example_draw_renderables:
  "draw_renderables example_material flag example_renderables =
     ([CmdPushConstants 1, CmdBindDescriptorSets 1 70, CmdBindVertexBuffers 7 0,
       CmdBindIndexBuffer 7 0, CmdDrawIndexed 3,
       CmdPushConstants 3] @ (if flag then [] else [soft_binding_warning]) @
      [CmdBindVertexBuffers 7 0, CmdBindIndexBuffer 7 0, CmdDrawIndexed 6,
       CmdPushConstants 4, CmdBindVertexBuffers 7 0, CmdBindIndexBuffer 7 0, CmdDrawIndexed 12],
      True)"
  by (simp add: example_renderables_def draw_renderables.simps(2) example_mesh_def
      example_material_def example_uniform_buffer_def VK_NULL_HANDLE_def Let_def)

lemma example_RecordCommands:
  "RecordCommands example_renderer example_frame_platform example_material [] flag
     example_renderables None =
     ([VkCall ''vkCmdBeginRenderPass'', VkCall ''vkCmdBindPipeline'', VkCall ''vkCmdSetViewport'',
       VkCall ''vkCmdSetScissor'', VkCall ''memcpy'', VkCall ''memcpy'',
       CmdBindDescriptorSets 0 50] @
      fst (draw_renderables example_material flag example_renderables) @
      [VkCall ''vkCmdEndRenderPass''], Some (Inr True))"
  using example_draw_renderables [of flag]
  by (simp add: RecordCommands_def GetCurrentCommandBuffer_def example_renderer_def
      example_frame_platform_def WriteToBuffer_def example_uniform_buffer_def
      then_do_simps then_do_terminating_Inr VK_NULL_HANDLE_def
      VK_MEMORY_PROPERTY_HOST_VISIBLE_BIT_def VK_MEMORY_PROPERTY_HOST_COHERENT_BIT_def
      returns_def)

text \<open>
  C6 as stated fails: the warning is not logged once per cause. The example list draws two
  renderables whose materials (two different ones) have no descriptor set. The first call of
  the process logs the warning once for both and leaves the flag set; the next call draws the
  same three renderables and logs no warning at all.
\<close>

theorem RecordCommands_warning_counterexample:
  "map (\<lambda>renderInfo. material (the (mesh renderInfo)))
       (filter (unbound_material example_material) example_renderables) = [1, 2]
   \<and> snd (RecordCommands example_renderer example_frame_platform example_material [] False
            example_renderables None) = Some (Inr True)
   \<and> count_list (fst (RecordCommands example_renderer example_frame_platform example_material []
                        False example_renderables None)) soft_binding_warning = 1
   \<and> snd (RecordCommands example_renderer example_frame_platform example_material [] True
            example_renderables None) = Some (Inr True)
   \<and> draw_calls (fst (RecordCommands example_renderer example_frame_platform example_material []
                        True example_renderables None)) = [3, 6, 12]
   \<and> count_list (fst (RecordCommands example_renderer example_frame_platform example_material []
                        True example_renderables None)) soft_binding_warning = 0"
  unfolding example_RecordCommands example_draw_renderables
  by (simp add: soft_binding_warning_def example_renderables_def unbound_material_def skipped_def
      example_mesh_def example_material_def VK_NULL_HANDLE_def)

subsection \<open>The frame cycle\<close>

lemma snd_then_do_Inr:
  "snd (then_do m f) = Some (Inr y) \<Longrightarrow>
   \<exists>x. snd m = Some (Inr x) \<and> snd (f x) = Some (Inr y)"
  by (auto simp: then_do_def split: prod.splits option.splits sum.splits)

lemma RecreateSwapchain_frame_index:
  assumes "snd (RecreateSwapchain r p) = Some (Inr r')"
  shows "m_CurrentFrameIndex r' = m_CurrentFrameIndex r"
  using assms unfolding RecreateSwapchain_def
  by (auto dest!: snd_then_do_Inr
      simp: emits_def terminating_def returns_def CleanupSwapchainDependents_def
        CreateSwapchainDependents_def
      split: option.splits prod.splits if_splits)

lemma BeginFrame_frame_index:
  assumes "snd (BeginFrame r p) = Some (Inr (ok, r'))"
  shows "m_CurrentFrameIndex r' = m_CurrentFrameIndex r"
  using assms unfolding BeginFrame_def
  by (auto dest!: snd_then_do_Inr RecreateSwapchain_frame_index
      simp: emits_def terminating_def returns_def throws_def Let_def
      split: if_splits)

lemma EndFrameAndPresent_frame_index:
  assumes "snd (EndFrameAndPresent r p) = Some (Inr r')"
  shows "m_CurrentFrameIndex r' = (m_CurrentFrameIndex r + 1) mod MAX_FRAMES_IN_FLIGHT"
  using assms unfolding EndFrameAndPresent_def
  by (auto dest!: snd_then_do_Inr
      simp: emits_def terminating_def returns_def throws_def Let_def
      split: if_splits)

lemma unat_succ_mod_frames:
  "unat ((i + 1) mod MAX_FRAMES_IN_FLIGHT) = (unat i + 1) mod unat MAX_FRAMES_IN_FLIGHT"
proof -
  have "unat ((i + 1) mod (2 :: 32 word)) = unat (i + 1) mod 2"
    by (simp add: unat_mod)
  also have "unat (i + 1) = (unat i + 1) mod 2 ^ 32"
    by (simp add: unat_word_ariths)
  also have "(unat i + 1) mod 2 ^ 32 mod 2 = (unat i + 1) mod 2"
    by (rule mod_mod_cancel) simp
  finally show ?thesis by (simp add: MAX_FRAMES_IN_FLIGHT_def)
qed

lemma render_frame_index:
  assumes "snd (render_frame (r, f) inp) = Some (Inr (completed, r', f'))"
  shows "m_CurrentFrameIndex r' =
    (if completed then (m_CurrentFrameIndex r + 1) mod MAX_FRAMES_IN_FLIGHT
     else m_CurrentFrameIndex r)"
proof -
  from assms obtain ok r1 where
    b: "snd (BeginFrame r (fi_platform inp)) = Some (Inr (ok, r1))"
    and rest: "snd (if ok then
        then_do (RecordCommands r1 (fi_platform inp) (fi_GetMaterial inp) (fi_uiDrawData inp) f
                   (fi_renderables inp) (fi_camera inp)) (\<lambda>logged_once.
        then_do (EndFrameAndPresent r1 (fi_platform inp)) (\<lambda>r2.
        returns (True, r2, logged_once)))
      else returns (False, r1, f)) = Some (Inr (completed, r', f'))"
    unfolding render_frame_def fst_conv snd_conv by (auto dest!: snd_then_do_Inr)
  have i1: "m_CurrentFrameIndex r1 = m_CurrentFrameIndex r"
    by (rule BeginFrame_frame_index [OF b])
  show ?thesis
  proof (cases ok)
    case False
    then show ?thesis using rest i1 by (simp add: returns_def)
  next
    case True
    with rest obtain r2 where
      e: "snd (EndFrameAndPresent r1 (fi_platform inp)) = Some (Inr r2)"
      and fin: "completed \<and> r' = r2"
      by (auto dest!: snd_then_do_Inr simp: returns_def)
    show ?thesis
      using EndFrameAndPresent_frame_index [OF e] fin i1 by simp
  qed
qed

lemma render_frames_index:
  assumes "snd (render_frames (r, f) inputs) = Some (Inr (n, r', f'))"
    and "unat (m_CurrentFrameIndex r) < unat MAX_FRAMES_IN_FLIGHT"
  shows "unat (m_CurrentFrameIndex r') = (unat (m_CurrentFrameIndex r) + n) mod unat MAX_FRAMES_IN_FLIGHT"
  using assms
proof (induction inputs arbitrary: r f n)
  case Nil
  then show ?case by (simp add: returns_def)
next
  case (Cons inp inputs)
  from Cons.prems(1) obtain completed r1 f1 m where
    first: "snd (render_frame (r, f) inp) = Some (Inr (completed, r1, f1))"
    and rest: "snd (render_frames (r1, f1) inputs) = Some (Inr (m, r', f'))"
    and n: "n = (if completed then Suc m else m)"
    by (auto dest!: snd_then_do_Inr simp: returns_def)
  let ?N = "unat MAX_FRAMES_IN_FLIGHT"
  have step: "unat (m_CurrentFrameIndex r1) =
      (if completed then (unat (m_CurrentFrameIndex r) + 1) mod ?N else unat (m_CurrentFrameIndex r))"
    using render_frame_index [OF first] by (simp add: unat_succ_mod_frames)
  have N: "0 < ?N" by (simp add: MAX_FRAMES_IN_FLIGHT_def)
  have bound: "unat (m_CurrentFrameIndex r1) < ?N"
    using step Cons.prems(2) N by (simp split: if_splits)
  have "unat (m_CurrentFrameIndex r') = (unat (m_CurrentFrameIndex r1) + m) mod ?N"
    by (rule Cons.IH [OF rest bound])
  then show ?case
    using step n by (simp add: mod_add_left_eq split: if_splits)
qed

text \<open>
  C4: an \<^verbatim>\<open>EndFrameAndPresent\<close> that returns advances the frame-slot index from \<open>i\<close> to
  \<open>(i + 1) mod N\<close>, with \<open>N = MAX_FRAMES_IN_FLIGHT\<close>; and starting from index 0, after any run of
  the frame loop that returns, with \<open>n\<close> completed cycles, the index is \<open>n mod N\<close>, which is at
  most \<open>N - 1\<close>.
\<close>

theorem frame_slot_round_robin:
  "(EndFrameAndPresent s q = (evs1, Some (Inr s')) \<longrightarrow>
      unat (m_CurrentFrameIndex s') = (unat (m_CurrentFrameIndex s) + 1) mod unat MAX_FRAMES_IN_FLIGHT)
   \<and> (m_CurrentFrameIndex r = 0
        \<and> render_frames (r, logged_once) inputs = (evs, Some (Inr (n, r', logged_once'))) \<longrightarrow>
      unat (m_CurrentFrameIndex r') = n mod unat MAX_FRAMES_IN_FLIGHT
      \<and> unat (m_CurrentFrameIndex r') \<le> unat MAX_FRAMES_IN_FLIGHT - 1)"
proof (intro conjI impI)
  assume "EndFrameAndPresent s q = (evs1, Some (Inr s'))"
  then have "snd (EndFrameAndPresent s q) = Some (Inr s')" by simp
  then show "unat (m_CurrentFrameIndex s') =
      (unat (m_CurrentFrameIndex s) + 1) mod unat MAX_FRAMES_IN_FLIGHT"
    by (simp add: EndFrameAndPresent_frame_index unat_succ_mod_frames)
next
  assume a: "m_CurrentFrameIndex r = 0
        \<and> render_frames (r, logged_once) inputs = (evs, Some (Inr (n, r', logged_once')))"
  then have run: "snd (render_frames (r, logged_once) inputs) = Some (Inr (n, r', logged_once'))"
    by simp
  have start: "unat (m_CurrentFrameIndex r) < unat MAX_FRAMES_IN_FLIGHT"
    using a by (simp add: MAX_FRAMES_IN_FLIGHT_def)
  have eq: "unat (m_CurrentFrameIndex r') = n mod unat MAX_FRAMES_IN_FLIGHT"
    using render_frames_index [OF run start] a by simp
  show "unat (m_CurrentFrameIndex r') = n mod unat MAX_FRAMES_IN_FLIGHT" by (rule eq)
  have "n mod unat MAX_FRAMES_IN_FLIGHT < unat MAX_FRAMES_IN_FLIGHT"
    by (simp add: MAX_FRAMES_IN_FLIGHT_def)
  then show "unat (m_CurrentFrameIndex r') \<le> unat MAX_FRAMES_IN_FLIGHT - 1"
    using eq by simp
qed

lemma example_BeginFrame:
  "BeginFrame example_renderer example_frame_platform =
     ([VkCall ''vkWaitForFences'', VkCall ''vkAcquireNextImageKHR'', VkCall ''vkResetFences'',
       VkCall ''vkResetCommandBuffer'', VkCall ''vkBeginCommandBuffer''],
      Some (Inr (True, example_renderer)))"
  by (simp add: BeginFrame_def example_renderer_def example_frame_platform_def then_do_simps
      then_do_terminating_Inr BeginFrameRecording_def VK_CHECK_def VK_NULL_HANDLE_def returns_def
      Let_def)

lemma example_EndFrameAndPresent:
  "EndFrameAndPresent example_renderer example_frame_platform =
     ([VkCall ''vkEndCommandBuffer'', VkCall ''vkQueueSubmit'', VkCall ''vkQueuePresentKHR''],
      Some (Inr (example_renderer\<lparr> m_CurrentFrameIndex := 1 \<rparr>)))"
  by (simp add: EndFrameAndPresent_def example_renderer_def example_frame_platform_def then_do_simps
      then_do_terminating_Inr EndFrameRecording_def VK_CHECK_def VK_NULL_HANDLE_def returns_def
      Let_def MAX_FRAMES_IN_FLIGHT_def)

lemma example_EndFrameAndPresent_wraps:
  "EndFrameAndPresent (example_renderer\<lparr> m_CurrentFrameIndex := 1 \<rparr>) example_frame_platform =
     ([VkCall ''vkEndCommandBuffer'', VkCall ''vkQueueSubmit'', VkCall ''vkQueuePresentKHR''],
      Some (Inr (example_renderer\<lparr> m_CurrentFrameIndex := 0 \<rparr>)))"
  by (simp add: EndFrameAndPresent_def example_renderer_def example_frame_platform_def then_do_simps
      then_do_terminating_Inr EndFrameRecording_def VK_CHECK_def VK_NULL_HANDLE_def returns_def
      Let_def MAX_FRAMES_IN_FLIGHT_def)

lemma example_render_frames:
  "\<exists>evs. render_frames (example_renderer, False) [example_frame_input] =
     (evs, Some (Inr (1, example_renderer\<lparr> m_CurrentFrameIndex := 1 \<rparr>, True)))"
proof -
  have flag: "snd (draw_renderables example_material False example_renderables) = True"
    using example_renderables_unbound by (simp add: draw_renderables_flag)
  show ?thesis
    by (simp add: render_frame_def example_frame_input_def example_BeginFrame
        example_EndFrameAndPresent RecordCommands_trace [OF example_renderer_ready] flag
        then_do_def returns_def)
qed

theorem frame_slot_round_robin_witness:
  "EndFrameAndPresent (example_renderer\<lparr> m_CurrentFrameIndex := 1 \<rparr>) example_frame_platform =
     ([VkCall ''vkEndCommandBuffer'', VkCall ''vkQueueSubmit'', VkCall ''vkQueuePresentKHR''],
      Some (Inr (example_renderer\<lparr> m_CurrentFrameIndex := 0 \<rparr>)))
   \<and> unat (m_CurrentFrameIndex (example_renderer\<lparr> m_CurrentFrameIndex := 0 \<rparr>)) =
       (unat (m_CurrentFrameIndex (example_renderer\<lparr> m_CurrentFrameIndex := 1 \<rparr>)) + 1)
         mod unat MAX_FRAMES_IN_FLIGHT
   \<and> m_CurrentFrameIndex example_renderer = 0
   \<and> (\<exists>evs. render_frames (example_renderer, False) [example_frame_input] =
         (evs, Some (Inr (1, example_renderer\<lparr> m_CurrentFrameIndex := 1 \<rparr>, True))))
   \<and> unat (m_CurrentFrameIndex (example_renderer\<lparr> m_CurrentFrameIndex := 1 \<rparr>)) =
       1 mod unat MAX_FRAMES_IN_FLIGHT
   \<and> unat (m_CurrentFrameIndex (example_renderer\<lparr> m_CurrentFrameIndex := 1 \<rparr>)) \<le>
       unat MAX_FRAMES_IN_FLIGHT - 1"
proof -
  have start: "m_CurrentFrameIndex example_renderer = 0"
    by (simp add: example_renderer_def)
  from example_render_frames obtain evs where
    run: "render_frames (example_renderer, False) [example_frame_input] =
         (evs, Some (Inr (1, example_renderer\<lparr> m_CurrentFrameIndex := 1 \<rparr>, True)))"
    by blast
  note step = frame_slot_round_robin [THEN conjunct1, THEN mp, OF example_EndFrameAndPresent_wraps]
  note loop = frame_slot_round_robin [THEN conjunct2, THEN mp, OF conjI [OF start run]]
  show ?thesis
    using example_EndFrameAndPresent_wraps step start example_render_frames loop
    by (intro conjI) simp_all
qed

subsection \<open>Resize notifications\<close>

lemma HandleResize_only_flag:
  "HandleResize r width height = r\<lparr> m_FramebufferResized := True \<rparr>"
  by (simp add: HandleResize_def)

lemma EndFrameAndPresent_never_recreates:
  assumes "snd (EndFrameAndPresent r p) = Some (Inr r')"
  shows "m_Swapchain r' = m_Swapchain r
       \<and> m_SwapChainFramebuffers r' = m_SwapChainFramebuffers r
       \<and> m_RenderPass r' = m_RenderPass r \<and> m_GraphicsPipeline r' = m_GraphicsPipeline r
       \<and> (m_FramebufferResized r' \<longleftrightarrow>
            m_FramebufferResized r \<or> fp_queuePresent p = VK_ERROR_OUT_OF_DATE_KHR
            \<or> fp_queuePresent p = VK_SUBOPTIMAL_KHR)"
  using assms unfolding EndFrameAndPresent_def
  by (auto dest!: snd_then_do_Inr
      simp: emits_def terminating_def returns_def throws_def Let_def
      split: if_splits)

text \<open>
  C5 at a failing input: after a resize notification the dirty flag is set, and a \<^verbatim>\<open>BeginFrame\<close>
  whose acquire succeeds returns true without any recreation: the renderer, with its swapchain
  and dependent resources, is as before and the flag is still set. (The notification itself
  changes nothing but the flag, and \<^verbatim>\<open>EndFrameAndPresent\<close> leaves the swapchain alone.)
\<close>

theorem BeginFrame_ignores_dirty_flag:
  "HandleResize example_renderer 1024 768 = example_renderer\<lparr> m_FramebufferResized := True \<rparr>
   \<and> BeginFrame (HandleResize example_renderer 1024 768) example_frame_platform =
       ([VkCall ''vkWaitForFences'', VkCall ''vkAcquireNextImageKHR'', VkCall ''vkResetFences'',
         VkCall ''vkResetCommandBuffer'', VkCall ''vkBeginCommandBuffer''],
        Some (Inr (True, example_renderer\<lparr> m_FramebufferResized := True \<rparr>)))
   \<and> m_Swapchain (example_renderer\<lparr> m_FramebufferResized := True \<rparr>) = m_Swapchain example_renderer
   \<and> m_SwapChainFramebuffers (example_renderer\<lparr> m_FramebufferResized := True \<rparr>) =
       m_SwapChainFramebuffers example_renderer"
  by (simp add: HandleResize_def BeginFrame_def example_renderer_def example_frame_platform_def
      then_do_simps then_do_terminating_Inr BeginFrameRecording_def VK_CHECK_def VK_NULL_HANDLE_def
      returns_def Let_def)

subsection \<open>Renderers without a surface\<close>


























lemma example_CommandManager_new:
  "CommandManager_new (example_context 1 5) (ip_commands example_init_platform)
       MAX_FRAMES_IN_FLIGHT False =
     ([VkCall ''vkCreateCommandPool'', VkCall ''vkAllocateCommandBuffers''],
      Inr (m_CommandManager example_renderer))"
  by (simp add: CommandManager_new_def example_init_platform_def example_context_def
      MAX_FRAMES_IN_FLIGHT_def VK_CHECK_def VK_NULL_HANDLE_def example_renderer_def
      upt_rec [of 0] upt_rec [of 1] upt_rec [of "Suc 0"])

lemma example_Swapchain_new:
  "Swapchain_new (example_context 1 5) example_swapchain_platform 800 600 VK_NULL_HANDLE =
     ([VkCall ''vkCreateSwapchainKHR'', VkCall ''vkGetSwapchainImagesKHR'',
       VkCall ''vkGetSwapchainImagesKHR'', VkCall ''vkCreateImageView''],
      Inr (m_Swapchain example_renderer,
           (example_context 1 5)\<lparr> imageCount := 3, minImageCount := 3 \<rparr>))"
  by (simp add: Swapchain_new_def Swapchain_Init_def CreateActualSwapchain_def
      QuerySwapChainSupport_def example_context_def example_swapchain_platform_def
      example_capabilities_def ChooseSwapSurfaceFormat_def ChooseSwapPresentMode_def
      ChooseSwapExtent_def requested_image_count_def RetrieveSwapchainImages_def
      CreateSwapchainImageViews_def VK_CHECK_def VK_NULL_HANDLE_def example_renderer_def
      Let_def)

lemma example_InitVulkan:
  "snd (InitVulkan (example_context 1 5) example_init_platform) =
     Some (Inr (example_renderer\<lparr> m_VulkanContext :=
                    (example_context 1 5)\<lparr> imageCount := 3, minImageCount := 3 \<rparr>,
                  m_SwapChainFramebuffers := [210, 211, 212] \<rparr>))"
proof -
  have w: "fp_swapchain (ip_frame example_init_platform) = example_swapchain_platform"
    "word_of_int (ip_windowWidth example_init_platform) = (800 :: uint32_t)"
    "word_of_int (ip_windowHeight example_init_platform) = (600 :: uint32_t)"
    by (simp_all add: example_init_platform_def example_frame_platform_def)
  show ?thesis
    unfolding InitVulkan_def w example_CommandManager_new example_Swapchain_new
    by (simp add: terminating_def then_do_def
        CreateFrameResources_def CreateSwapchainDependents_def Renderer_members_def
        example_init_platform_def example_frame_platform_def example_renderer_def returns_def)
qed


end
